theory Spec2Isabelle
  imports Main "HOL-Library.Sublist"
begin

section \<open>JavaScript values\<close>

text \<open>
  An optional string (\<^verbatim>\<open>string | undefined\<close>) is a \<^typ>\<open>string option\<close>.  A value is
  truthy when it is defined and not the empty string; \<^verbatim>\<open>a || b\<close> yields \<^verbatim>\<open>a\<close> when
  \<^verbatim>\<open>a\<close> is truthy and \<^verbatim>\<open>b\<close> otherwise.
\<close>

definition truthy :: "string option \<Rightarrow> bool" where
  "truthy v = (case v of None \<Rightarrow> False | Some s \<Rightarrow> s \<noteq> [])"

definition orElse :: "string option \<Rightarrow> string option \<Rightarrow> string option" where
  "orElse a b = (if truthy a then a else b)"

text \<open>
  A query value typed \<^verbatim>\<open>string | string[]\<close>.  Every array is truthy, the empty one
  included.
\<close>

datatype qvalue = QStr string | QArr "string list"

definition truthyQ :: "qvalue option \<Rightarrow> bool" where
  "truthyQ v = (case v of None \<Rightarrow> False | Some (QStr s) \<Rightarrow> s \<noteq> [] | Some (QArr xs) \<Rightarrow> True)"

text \<open>
  A thrown \<^verbatim>\<open>Error\<close> is its message.  An error raised by the HTTP library
  (\<^verbatim>\<open>axios\<close>) carries the response when the server answered with an error status
  (\<^verbatim>\<open>error.response\<close>), and none when the request itself failed.  \<^verbatim>\<open>dataJson\<close> is
  \<^verbatim>\<open>JSON.stringify(error.response.data)\<close>; the other \<^verbatim>\<open>data\<close> fields are those the
  adapters read from the body.
\<close>

record ErrorResponse =
  status :: nat
  statusText :: string
  dataJson :: string
  dataStatusCode :: "string option"
  dataStatusCodeText :: "string option"
  dataErrors :: "(string option \<times> string option) option"

datatype jsError = Error string | AxiosError string "ErrorResponse option"

text \<open>\<^verbatim>\<open>error.message\<close>, and \<^verbatim>\<open>a || d\<close> with a string default.\<close>

fun message :: "jsError \<Rightarrow> string" where
  "message (Error m) = m"
| "message (AxiosError m r) = m"

definition orDefault :: "string option \<Rightarrow> string \<Rightarrow> string" where
  "orDefault a d = (case a of None \<Rightarrow> d | Some s \<Rightarrow> if s = [] then d else s)"

section \<open>Strings and numbers\<close>

text \<open>
  Strings are lists of characters, one per UTF-16 code unit of the JavaScript string;
  the development is about ASCII text, where these are bytes.  \<^verbatim>\<open>substring\<close> clamps
  both indices to the length and swaps them when they are out of order.
\<close>

definition substring :: "nat \<Rightarrow> nat \<Rightarrow> string \<Rightarrow> string" where
  "substring start stop s =
     (let a = min start (length s); b = min stop (length s)
      in take (max a b - min a b) (drop (min a b) s))"

definition endsWith :: "string \<Rightarrow> string \<Rightarrow> bool" where
  "endsWith s suffix_s = (length suffix_s \<le> length s \<and> drop (length s - length suffix_s) s = suffix_s)"

fun includes_str :: "string \<Rightarrow> string \<Rightarrow> bool" where
  "includes_str [] needle = (needle = [])"
| "includes_str (c # cs) needle = (prefix needle (c # cs) \<or> includes_str cs needle)"

definition upperChar :: "char \<Rightarrow> char" where
  "upperChar c =
     (case map_of (zip ''abcdefghijklmnopqrstuvwxyz'' ''ABCDEFGHIJKLMNOPQRSTUVWXYZ'') c of
        None \<Rightarrow> c
      | Some u \<Rightarrow> u)"

definition toUpperCase :: "string \<Rightarrow> string" where
  "toUpperCase s = map upperChar s"

definition isUpperAZ :: "char \<Rightarrow> bool" where
  "isUpperAZ c = (c \<in> set ''ABCDEFGHIJKLMNOPQRSTUVWXYZ'')"

text \<open>\<^verbatim>\<open>Array.prototype.join\<close> on strings.\<close>

fun join :: "string \<Rightarrow> string list \<Rightarrow> string" where
  "join sep [] = []"
| "join sep [x] = x"
| "join sep (x # y # ys) = x @ sep @ join sep (y # ys)"

text \<open>Decimal rendering of a number (\<^verbatim>\<open>toString\<close>, template literals).\<close>

definition digitChar :: "nat \<Rightarrow> char" where
  "digitChar d = ''0123456789'' ! d"

fun showNat :: "nat \<Rightarrow> string" where
  "showNat n = (if n < 10 then [digitChar n] else showNat (n div 10) @ [digitChar (n mod 10)])"

declare showNat.simps [simp del]

definition showInt :: "int \<Rightarrow> string" where
  "showInt i = (if i < 0 then CHR ''-'' # showNat (nat (- i)) else showNat (nat i))"

text \<open>
  The wall clock: \<^verbatim>\<open>clk k\<close> is what the \<^verbatim>\<open>k\<close>-th call of \<^verbatim>\<open>Date.now()\<close> in a run
  returns (milliseconds since the epoch).  Functions that read the clock take the
  number of readings made so far and return the new number.
\<close>

type_synonym clock = "nat \<Rightarrow> nat"

section \<open>Schedule query parameters\<close>

text \<open>
  The flat parameter bag the schedule controller builds from the request:
  \<^verbatim>\<open>ScheduleQueryParams\<close> together with the carrier-specific fields the routers read
  through \<^verbatim>\<open>(params as any)\<close>.  \<^verbatim>\<open>limit\<close> is \<^verbatim>\<open>None\<close> when undefined or NaN.
\<close>

record ScheduleQueryParams =
  vesselIMONumber :: "string option"
  vesselName :: "string option"
  carrierServiceCode :: "string option"
  universalServiceReference :: "string option"
  carrierVoyageNumber :: "string option"
  universalVoyageReference :: "string option"
  UNLocationCode :: "string option"
  facilitySMDGCode :: "string option"
  vesselOperatorCarrierCode :: "string option"
  startDate :: "string option"
  endDate :: "string option"
  limit :: "int option"
  cursor :: "string option"
  fromLocationCode :: "string option"
  toLocationCode :: "string option"
  periodDate :: "string option"
  placeOfLoading :: "string option"
  placeOfDischarge :: "string option"
  unLocodePlaceOfLoading :: "string option"
  unLocodePlaceOfDischarge :: "string option"
  voyageCode :: "string option"
  vesselIMO :: "string option"
  from' :: "string option"
  to' :: "string option"
  portCode :: "qvalue option"
  countryCode :: "qvalue option"
  serviceCode :: "string option"
  lineCode :: "string option"
  zoneFromCode :: "string option"
  zoneToCode :: "string option"
  placeOfReceipt :: "string option"
  placeOfDelivery :: "string option"
  date :: "string option"

definition noParams :: ScheduleQueryParams where
  "noParams = \<lparr> vesselIMONumber = None, vesselName = None, carrierServiceCode = None,
     universalServiceReference = None, carrierVoyageNumber = None,
     universalVoyageReference = None, UNLocationCode = None, facilitySMDGCode = None,
     vesselOperatorCarrierCode = None, startDate = None, endDate = None, limit = None,
     cursor = None, fromLocationCode = None, toLocationCode = None, periodDate = None,
     placeOfLoading = None, placeOfDischarge = None, unLocodePlaceOfLoading = None,
     unLocodePlaceOfDischarge = None, voyageCode = None, vesselIMO = None, from' = None,
     to' = None, portCode = None, countryCode = None, serviceCode = None, lineCode = None,
     zoneFromCode = None, zoneToCode = None, placeOfReceipt = None, placeOfDelivery = None,
     date = None \<rparr>"

section \<open>CMA CGM carrier router\<close>

text \<open>
  \<^verbatim>\<open>CMACGMAdapter.getSchedule\<close>.  The four sub-API adapters are the fields of the
  adapter object; here they are the first four arguments.
\<close>

definition CMACGMAdapter_getSchedule ::
  "(ScheduleQueryParams \<Rightarrow> 'r) \<Rightarrow> (ScheduleQueryParams \<Rightarrow> 'r) \<Rightarrow>
   (ScheduleQueryParams \<Rightarrow> 'r) \<Rightarrow> (ScheduleQueryParams \<Rightarrow> 'r) \<Rightarrow>
   ScheduleQueryParams \<Rightarrow> 'r" where
  "CMACGMAdapter_getSchedule routeAdapter proformaAdapter voyageAdapter scheduleAdapter params =
     (let voyageCode_v = orElse (voyageCode params) (carrierVoyageNumber params);
          vesselIMO_v = orElse (vesselIMO params) (vesselIMONumber params);
          from_v = orElse (from' params) (startDate params);
          to_v = orElse (to' params) (endDate params);
          serviceCode_v = orElse (serviceCode params) (carrierServiceCode params)
      in
      if (truthy (placeOfLoading params) \<or> truthy (unLocodePlaceOfLoading params)) \<and>
         (truthy (placeOfDischarge params) \<or> truthy (unLocodePlaceOfDischarge params))
      then routeAdapter params
      else if truthy serviceCode_v \<or> truthy (lineCode params) \<or>
              (truthy (zoneFromCode params) \<and> truthy (zoneToCode params))
      then proformaAdapter params
      else if truthy voyageCode_v \<or> truthy vesselIMO_v \<or> (truthy from_v \<and> truthy to_v) \<or>
              truthyQ (portCode params) \<or> truthyQ (countryCode params)
      then voyageAdapter params
      else scheduleAdapter params)"


text \<open>
  The trigger conditions of the three conditional sub-APIs, in the words of the
  routing rules: a loading and a discharge location (vendor code or UN/LOCODE form on
  each side); a service code, a line code or a zone pair; a voyage code, a vessel IMO,
  a date range, a port code or a country code.  A parameter counts as present when it
  is truthy.
\<close>

definition routeTrigger :: "ScheduleQueryParams \<Rightarrow> bool" where
  "routeTrigger params =
     ((truthy (placeOfLoading params) \<or> truthy (unLocodePlaceOfLoading params)) \<and>
      (truthy (placeOfDischarge params) \<or> truthy (unLocodePlaceOfDischarge params)))"

definition proformaTrigger :: "ScheduleQueryParams \<Rightarrow> bool" where
  "proformaTrigger params =
     (truthy (serviceCode params) \<or> truthy (carrierServiceCode params) \<or>
      truthy (lineCode params) \<or>
      (truthy (zoneFromCode params) \<and> truthy (zoneToCode params)))"

definition voyageTrigger :: "ScheduleQueryParams \<Rightarrow> bool" where
  "voyageTrigger params =
     (truthy (voyageCode params) \<or> truthy (carrierVoyageNumber params) \<or>
      truthy (vesselIMO params) \<or> truthy (vesselIMONumber params) \<or>
      ((truthy (from' params) \<or> truthy (startDate params)) \<and>
       (truthy (to' params) \<or> truthy (endDate params))) \<or>
      truthyQ (portCode params) \<or> truthyQ (countryCode params))"

datatype CMACGMSubApi = Route | Proforma | Voyage | CommercialSchedule

section \<open>Fan-out aggregator\<close>

text \<open>
  \<^verbatim>\<open>ScheduleController.getSchedules\<close> and \<^verbatim>\<open>TrackingController.getTracking\<close> share one
  body.  \<^verbatim>\<open>call c\<close> stands for obtaining carrier \<^verbatim>\<open>c\<close>'s adapter from the factory and
  awaiting its \<^verbatim>\<open>getSchedule\<close> (or \<^verbatim>\<open>getTracking\<close>): it either throws or returns the
  adapter's display name with the records.  The carriers are queried through
  \<^verbatim>\<open>Promise.allSettled\<close>, which keeps the order of \<^verbatim>\<open>carrierCodes\<close>.
\<close>

record 'a CarrierResult =
  carrier :: string
  carrierName :: "string option"
  success :: bool
  schedules :: "'a list option"
  error :: "string option"

datatype 'a Settled = Fulfilled "'a CarrierResult" | Rejected "string option"

record CarrierFailure =
  failedCarrier :: string
  failure :: string

record 'a WithCarrier =
  payload :: 'a
  fromCarrier :: string
  fromCarrierName :: "string option"

text \<open>The callback mapped over \<^verbatim>\<open>carrierCodes\<close>: its own try/catch turns a throw into a
  result with \<^verbatim>\<open>success: false\<close>, so the promise is always fulfilled.\<close>

definition queryCarrier :: "(string \<Rightarrow> jsError + (string \<times> 'a list)) \<Rightarrow> string \<Rightarrow> 'a Settled" where
  "queryCarrier call carrierCode =
     (case call carrierCode of
        Inr (name, recs) \<Rightarrow>
          Fulfilled \<lparr> carrier = carrierCode, carrierName = Some name, success = True,
                      schedules = Some recs, error = None \<rparr>
      | Inl e \<Rightarrow>
          Fulfilled \<lparr> carrier = carrierCode, carrierName = None, success = False,
                      schedules = None, error = Some (orDefault (Some (message e)) ''Unknown error'') \<rparr>)"

text \<open>The loop over the settled results, with the two accumulators
  \<^verbatim>\<open>successfulResults\<close> and \<^verbatim>\<open>errors\<close>.\<close>

fun processResults ::
  "string \<Rightarrow> 'a Settled list \<Rightarrow> 'a WithCarrier list \<Rightarrow> CarrierFailure list \<Rightarrow>
   'a WithCarrier list \<times> CarrierFailure list" where
  "processResults noneMsg [] successfulResults errors = (successfulResults, errors)"
| "processResults noneMsg (Fulfilled d # rest) successfulResults errors =
     (if success d \<and> schedules d \<noteq> None
      then processResults noneMsg rest
             (successfulResults @
                map (\<lambda>x. \<lparr> payload = x, fromCarrier = carrier d, fromCarrierName = carrierName d \<rparr>)
                    (the (schedules d)))
             errors
      else processResults noneMsg rest successfulResults
             (errors @ [\<lparr> failedCarrier = carrier d, failure = orDefault (error d) noneMsg \<rparr>]))"
| "processResults noneMsg (Rejected reason # rest) successfulResults errors =
     processResults noneMsg rest successfulResults
       (errors @ [\<lparr> failedCarrier = ''unknown'', failure = orDefault reason ''Unknown error'' \<rparr>])"

record 'a SuccessBody =
  data :: "'a WithCarrier list"
  total :: nat
  carriersQueried :: nat
  carriersSucceeded :: int
  carriersFailed :: nat
  errors :: "CarrierFailure list option"

datatype 'a Response =
    NoCarriers400
  | AllCarriersFailed503 "CarrierFailure list"
  | Ok200 "'a SuccessBody"

definition fanOut ::
  "string \<Rightarrow> (string \<Rightarrow> jsError + (string \<times> 'a list)) \<Rightarrow> string list \<Rightarrow> 'a Response" where
  "fanOut noneMsg call carrierCodes =
     (if length carrierCodes = 0 then NoCarriers400
      else
        (case processResults noneMsg (map (queryCarrier call) carrierCodes) [] [] of
           (successfulResults, errs) \<Rightarrow>
             if length successfulResults = 0 \<and> length errs > 0
             then AllCarriersFailed503 errs
             else Ok200 \<lparr> data = successfulResults,
                          total = length successfulResults,
                          carriersQueried = length carrierCodes,
                          carriersSucceeded = int (length carrierCodes) - int (length errs),
                          carriersFailed = length errs,
                          errors = (if length errs > 0 then Some errs else None) \<rparr>))"

definition getSchedules :: "(string \<Rightarrow> jsError + (string \<times> 'a list)) \<Rightarrow> string list \<Rightarrow> 'a Response" where
  "getSchedules = fanOut ''No schedules returned''"

definition getTracking :: "(string \<Rightarrow> jsError + (string \<times> 'a list)) \<Rightarrow> string list \<Rightarrow> 'a Response" where
  "getTracking = fanOut ''No events returned''"

text \<open>A carrier succeeded when its call returned, whatever the number of records.\<close>

definition carrierSucceeded :: "(string \<Rightarrow> jsError + (string \<times> 'a list)) \<Rightarrow> string \<Rightarrow> bool" where
  "carrierSucceeded call c = (case call c of Inr _ \<Rightarrow> True | Inl _ \<Rightarrow> False)"

fun isSuccess :: "'a Response \<Rightarrow> bool" where
  "isSuccess (Ok200 b) = True"
| "isSuccess _ = False"

text \<open>The scenario of two carriers: HMM answers with an empty list, ZIM throws.\<close>

definition emptyAndFailing :: "string \<Rightarrow> jsError + (string \<times> nat list)" where
  "emptyAndFailing c =
     (if c = ''HMM'' then Inr (''HMM'', [])
      else Inl (Error ''ZIM Schedule API requires both origin and destination locations''))"

section \<open>Canonical schedule model\<close>

text \<open>
  The interfaces of \<^verbatim>\<open>domain/models/schedule.ts\<close>, with the fields the mappers below
  set; an optional field none of them sets is left out.  A field whose name another
  record already uses carries a short prefix.
\<close>

datatype EventTypeCode = ARRI | DEPA

datatype EventClassifierCode = ACT | EST | PLN

record Timestamp =
  eventTypeCode :: EventTypeCode
  eventClassifierCode :: EventClassifierCode
  eventDateTime :: string

record TransportCallLocation =
  loc_UNLocationCode :: "string option"
  locationName :: "string option"
  loc_facilitySMDGCode :: "string option"

record TransportCall =
  transportCallReference :: string
  carrierImportVoyageNumber :: string
  carrierExportVoyageNumber :: "string option"
  location :: TransportCallLocation
  timestamps :: "Timestamp list"

record Vessel =
  v_vesselIMONumber :: string
  v_name :: "string option"

record VesselSchedule =
  isDummyVessel :: bool
  vessel :: "Vessel option"
  transportCalls :: "TransportCall list option"

record ServiceSchedule =
  ss_carrierServiceCode :: string
  carrierServiceName :: string
  vesselSchedules :: "VesselSchedule list"

section \<open>HMM schedule mapper\<close>

text \<open>The vendor payload (\<^verbatim>\<open>HMMScheduleResponse\<close>); \<^verbatim>\<open>longTermDeparture\<close> and
  \<^verbatim>\<open>berthing\<close>, which the mapper never reads, are left out.\<close>

record HMMArrival =
  arrivalDate :: "string option"
  arrivalTime :: "string option"
  arrivalStatusCode :: "string option"

record HMMDeparture =
  departureDate :: "string option"
  departureTime :: "string option"
  departureStatusCode :: "string option"

record HMMScheduleItem =
  vvdCode :: "string option"
  item_portCode :: "string option"
  portName :: "string option"
  tmnlCode :: "string option"
  tmnlName :: "string option"
  item_vesselName :: "string option"
  scheduleDirectionCode :: "string option"
  arrival :: "HMMArrival option"
  departure :: "HMMDeparture option"

record HMMScheduleResponse =
  resultData :: "HMMScheduleItem list option"
  resultCode :: "string option"
  resultMessage :: "string option"

definition convertHMMDateTime :: "string \<Rightarrow> string \<Rightarrow> jsError + string" where
  "convertHMMDateTime dateStr timeStr =
     (if dateStr = [] \<or> length dateStr \<noteq> 8
      then Inl (Error (''Invalid date format: '' @ dateStr @ ''. Expected YYYYMMDD''))
      else if timeStr = [] \<or> length timeStr \<noteq> 4
      then Inl (Error (''Invalid time format: '' @ timeStr @ ''. Expected HHMM''))
      else
        (let year = substring 0 4 dateStr;
             month = substring 4 6 dateStr;
             day = substring 6 8 dateStr;
             hour = substring 0 2 timeStr;
             minute = substring 2 4 timeStr
         in Inr (year @ ''-'' @ month @ ''-'' @ day @ ''T'' @ hour @ '':'' @ minute @ '':00Z'')))"

definition mapStatusCodeToClassifier :: "string option \<Rightarrow> EventClassifierCode" where
  "mapStatusCodeToClassifier statusCode =
     (if \<not> truthy statusCode then EST
      else
        (let code = toUpperCase (the statusCode) in
         if code = ''A'' \<or> code = ''ACTUAL'' then ACT
         else if code = ''E'' \<or> code = ''ESTIMATED'' then EST
         else if code = ''L'' \<or> code = ''LONG-TERM'' \<or> code = ''PLANNED'' then PLN
         else EST))"

text \<open>The regular expression \<^verbatim>\<open>/^([A-Z]+)/\<close> matches the longest run of capital
  letters at the start, when that run is not empty.\<close>

definition extractServiceCodeFromVVD :: "string \<Rightarrow> string" where
  "extractServiceCodeFromVVD vvd =
     (if takeWhile isUpperAZ vvd \<noteq> [] then takeWhile isUpperAZ vvd
      else substring 0 (min 11 (length vvd)) vvd)"

definition generateTransportCallReference :: "clock \<Rightarrow> string \<Rightarrow> string \<Rightarrow> nat \<Rightarrow> string \<times> nat" where
  "generateTransportCallReference clk vvd port k =
     (''HMM-'' @ vvd @ ''-'' @ port @ ''-'' @ showNat (clk k), Suc k)"

text \<open>A \<^verbatim>\<open>Map\<close> from strings to arrays keeps its keys in insertion order:
  \<^verbatim>\<open>if (!m.has(k)) m.set(k, []); m.get(k).push(x)\<close>.\<close>

fun groupPush :: "string \<Rightarrow> 'a \<Rightarrow> (string \<times> 'a list) list \<Rightarrow> (string \<times> 'a list) list" where
  "groupPush k x [] = [(k, [x])]"
| "groupPush k x ((k', xs) # rest) =
     (if k = k' then (k', xs @ [x]) # rest else (k', xs) # groupPush k x rest)"

definition groupBy :: "('a \<Rightarrow> string) \<Rightarrow> 'a list \<Rightarrow> (string \<times> 'a list) list" where
  "groupBy key xs = foldl (\<lambda>m x. groupPush (key x) x m) [] xs"

text \<open>\<^verbatim>\<open>Array.prototype.sort\<close> is stable; with a comparator that is a total preorder
  its result is that of insertion sort.  \<^verbatim>\<open>cmp a b \<le> 0\<close> keeps \<^verbatim>\<open>a\<close> before \<^verbatim>\<open>b\<close>.\<close>

fun insertBy :: "('a \<Rightarrow> 'a \<Rightarrow> int) \<Rightarrow> 'a \<Rightarrow> 'a list \<Rightarrow> 'a list" where
  "insertBy cmp x [] = [x]"
| "insertBy cmp x (y # ys) = (if cmp x y \<le> 0 then x # y # ys else y # insertBy cmp x ys)"

definition sortBy :: "('a \<Rightarrow> 'a \<Rightarrow> int) \<Rightarrow> 'a list \<Rightarrow> 'a list" where
  "sortBy cmp xs = foldr (insertBy cmp) xs []"

definition itemSortDate :: "HMMScheduleItem \<Rightarrow> string" where
  "itemSortDate a =
     orDefault (orElse (case arrival a of None \<Rightarrow> None | Some ar \<Rightarrow> arrivalDate ar)
                       (case departure a of None \<Rightarrow> None | Some de \<Rightarrow> departureDate de)) []"

text \<open>The body of the loop over the sorted items, up to the test
  \<^verbatim>\<open>timestamps.length === 0\<close>: the arrival and the departure timestamp of one item.\<close>

definition arrivalTimestamps :: "HMMScheduleItem \<Rightarrow> jsError + Timestamp list" where
  "arrivalTimestamps item =
     (case arrival item of
        None \<Rightarrow> Inr []
      | Some ar \<Rightarrow>
          if truthy (arrivalDate ar) \<and> truthy (arrivalTime ar)
          then (case convertHMMDateTime (the (arrivalDate ar)) (the (arrivalTime ar)) of
                  Inl e \<Rightarrow> Inl e
                | Inr dt \<Rightarrow>
                    Inr [\<lparr> eventTypeCode = ARRI,
                           eventClassifierCode = mapStatusCodeToClassifier (arrivalStatusCode ar),
                           eventDateTime = dt \<rparr>])
          else Inr [])"

definition departureTimestamps :: "HMMScheduleItem \<Rightarrow> jsError + Timestamp list" where
  "departureTimestamps item =
     (case departure item of
        None \<Rightarrow> Inr []
      | Some de \<Rightarrow>
          if truthy (departureDate de) \<and> truthy (departureTime de)
          then (case convertHMMDateTime (the (departureDate de)) (the (departureTime de)) of
                  Inl e \<Rightarrow> Inl e
                | Inr dt \<Rightarrow>
                    Inr [\<lparr> eventTypeCode = DEPA,
                           eventClassifierCode = mapStatusCodeToClassifier (departureStatusCode de),
                           eventDateTime = dt \<rparr>])
          else Inr [])"

definition itemTimestamps :: "HMMScheduleItem \<Rightarrow> jsError + Timestamp list" where
  "itemTimestamps item =
     (case arrivalTimestamps item of
        Inl e \<Rightarrow> Inl e
      | Inr ts1 \<Rightarrow>
          (case departureTimestamps item of
             Inl e \<Rightarrow> Inl e
           | Inr ts2 \<Rightarrow> Inr (ts1 @ ts2)))"

fun mapSortedItems ::
  "clock \<Rightarrow> string \<Rightarrow> HMMScheduleItem list \<Rightarrow> nat \<Rightarrow> jsError + (TransportCall list \<times> nat)" where
  "mapSortedItems clk vvd [] k = Inr ([], k)"
| "mapSortedItems clk vvd (item # rest) k =
     (case itemTimestamps item of
        Inl e \<Rightarrow> Inl e
      | Inr ts \<Rightarrow>
          if length ts = 0 then mapSortedItems clk vvd rest k
          else
            (case generateTransportCallReference clk vvd (orDefault (item_portCode item) []) k of
               (ref, k') \<Rightarrow>
                 (case mapSortedItems clk vvd rest k' of
                    Inl e \<Rightarrow> Inl e
                  | Inr (calls, k'') \<Rightarrow>
                      Inr (\<lparr> transportCallReference = ref,
                             carrierImportVoyageNumber = vvd,
                             carrierExportVoyageNumber = Some vvd,
                             location = \<lparr> loc_UNLocationCode = item_portCode item,
                                          locationName = portName item,
                                          loc_facilitySMDGCode = tmnlCode item \<rparr>,
                             timestamps = ts \<rparr> # calls, k''))))"

fun mapVessels ::
  "clock \<Rightarrow> (string \<Rightarrow> string \<Rightarrow> int) \<Rightarrow> string \<Rightarrow> (string \<times> HMMScheduleItem list) list \<Rightarrow> nat \<Rightarrow>
   jsError + (VesselSchedule list \<times> nat)" where
  "mapVessels clk localeCompare vvd [] k = Inr ([], k)"
| "mapVessels clk localeCompare vvd ((vesselName_k, vesselItems) # rest) k =
     (let sortedItems = sortBy (\<lambda>a b. localeCompare (itemSortDate a) (itemSortDate b)) vesselItems in
      case mapSortedItems clk vvd sortedItems k of
        Inl e \<Rightarrow> Inl e
      | Inr (calls, k') \<Rightarrow>
          (case mapVessels clk localeCompare vvd rest k' of
             Inl e \<Rightarrow> Inl e
           | Inr (vss, k'') \<Rightarrow>
               Inr (\<lparr> isDummyVessel = (vesselName_k = ''UNKNOWN''),
                      vessel = (if vesselName_k \<noteq> ''UNKNOWN''
                                then Some \<lparr> v_vesselIMONumber = ''0000000'', v_name = Some vesselName_k \<rparr>
                                else None),
                      transportCalls = (if length calls > 0 then Some calls else None) \<rparr> # vss, k'')))"

fun mapVoyages ::
  "clock \<Rightarrow> (string \<Rightarrow> string \<Rightarrow> int) \<Rightarrow> string option \<Rightarrow> (string \<times> HMMScheduleItem list) list \<Rightarrow> nat \<Rightarrow>
   jsError + (ServiceSchedule list \<times> nat)" where
  "mapVoyages clk localeCompare svc [] k = Inr ([], k)"
| "mapVoyages clk localeCompare svc ((vvd, items) # rest) k =
     (let serviceCode_v = (if truthy svc then the svc else extractServiceCodeFromVVD vvd);
          vesselMap = groupBy (\<lambda>item. orDefault (item_vesselName item) ''UNKNOWN'') items
      in
      case mapVessels clk localeCompare vvd vesselMap k of
        Inl e \<Rightarrow> Inl e
      | Inr (vss, k') \<Rightarrow>
          (case mapVoyages clk localeCompare svc rest k' of
             Inl e \<Rightarrow> Inl e
           | Inr (sss, k'') \<Rightarrow>
               Inr (\<lparr> ss_carrierServiceCode = serviceCode_v,
                      carrierServiceName = serviceCode_v,
                      vesselSchedules = vss \<rparr> # sss, k'')))"

text \<open>
  \<^verbatim>\<open>mapHMMScheduleToDCSA\<close>.  Besides the payload and the optional service code it
  depends on the clock and on the collation \<^verbatim>\<open>String.prototype.localeCompare\<close> of the
  host, both arguments here.  \<^verbatim>\<open>Inl\<close> is a thrown error.
\<close>

definition mapHMMScheduleToDCSA ::
  "clock \<Rightarrow> (string \<Rightarrow> string \<Rightarrow> int) \<Rightarrow> HMMScheduleResponse \<Rightarrow> string option \<Rightarrow>
   jsError + ServiceSchedule list" where
  "mapHMMScheduleToDCSA clk localeCompare hmmResponse carrierServiceCode_p =
     (case resultData hmmResponse of
        None \<Rightarrow> Inr []
      | Some items \<Rightarrow>
          if length items = 0 then Inr []
          else
            (let voyageMap = groupBy (\<lambda>item. orDefault (vvdCode item) ''UNKNOWN'') items in
             case mapVoyages clk localeCompare carrierServiceCode_p voyageMap 0 of
               Inl e \<Rightarrow> Inl e
             | Inr (sss, k) \<Rightarrow> Inr sss))"

text \<open>The invariant of the canonical model:
  \<^verbatim>\<open>vesselSchedules.some(vs => vs.transportCalls?.length)\<close>.\<close>

definition hasTransportCalls :: "ServiceSchedule \<Rightarrow> bool" where
  "hasTransportCalls ss =
     list_ex (\<lambda>vs. case transportCalls vs of None \<Rightarrow> False | Some calls \<Rightarrow> length calls > 0)
       (vesselSchedules ss)"

section \<open>Other reference and date helpers of the mappers\<close>

text \<open>
  \<^verbatim>\<open>normalizeDateTime\<close> of the HMM point-to-point mapper.  \<^verbatim>\<open>toISO s\<close> stands for
  \<^verbatim>\<open>new Date(s)\<close> followed by \<^verbatim>\<open>toISOString()\<close>: \<^verbatim>\<open>None\<close> when the date is invalid.
\<close>

definition normalizeDateTime :: "(string \<Rightarrow> string option) \<Rightarrow> string \<Rightarrow> jsError + string" where
  "normalizeDateTime toISO dateTime =
     (if dateTime = [] then Inl (Error ''Invalid datetime string'')
      else if includes_str dateTime ''T''
      then Inr (if endsWith dateTime ''Z'' then dateTime else dateTime @ ''Z'')
      else (case toISO dateTime of
              None \<Rightarrow> Inl (Error (''Invalid datetime format: '' @ dateTime))
            | Some isoText \<Rightarrow> Inr isoText))"

text \<open>\<^verbatim>\<open>generateTransportCallReference\<close> of the HMM point-to-point mapper.\<close>

definition generateTransportCallReference_PTP ::
  "clock \<Rightarrow> string \<Rightarrow> string \<Rightarrow> string \<Rightarrow> nat \<Rightarrow> string \<times> nat" where
  "generateTransportCallReference_PTP clk routeMapNo port type_s k =
     (''HMM-PTP-'' @ routeMapNo @ ''-'' @ port @ ''-'' @ type_s @ ''-'' @ showNat (clk k), Suc k)"

text \<open>\<^verbatim>\<open>generateTransportCallReference\<close> of the ZIM mapper, with the fields of
  \<^verbatim>\<open>ZIMRouteLeg\<close> it reads.  The clock is read only when the joined parts are empty.\<close>

record ZIMRouteLeg =
  departurePort :: "string option"
  arrivalPort :: "string option"
  voyage :: "string option"
  consortSailingNumber :: "string option"
  lloydsCode :: "string option"
  vesselCode :: "string option"

definition generateTransportCallReference_ZIM :: "clock \<Rightarrow> ZIMRouteLeg \<Rightarrow> nat \<Rightarrow> string \<times> nat" where
  "generateTransportCallReference_ZIM clk leg k =
     (let parts = filter (\<lambda>s. s \<noteq> [])
                    [''ZIM'',
                     orDefault (departurePort leg) [],
                     orDefault (arrivalPort leg) [],
                     orDefault (orElse (voyage leg) (consortSailingNumber leg)) [],
                     orDefault (orElse (lloydsCode leg) (vesselCode leg)) []];
          joined = join ''-'' parts
      in if joined \<noteq> [] then (joined, k) else (''ZIM-'' @ showNat (clk k), Suc k))"

text \<open>A mapper's output with every synthesized \<^verbatim>\<open>transportCallReference\<close> blanked.\<close>

definition eraseCall :: "TransportCall \<Rightarrow> TransportCall" where
  "eraseCall tc = tc\<lparr> transportCallReference := [] \<rparr>"

definition eraseVessel :: "VesselSchedule \<Rightarrow> VesselSchedule" where
  "eraseVessel vs = vs\<lparr> transportCalls := map_option (map eraseCall) (transportCalls vs) \<rparr>"

definition eraseService :: "ServiceSchedule \<Rightarrow> ServiceSchedule" where
  "eraseService ss = ss\<lparr> vesselSchedules := map eraseVessel (vesselSchedules ss) \<rparr>"

definition withoutReferences :: "jsError + ServiceSchedule list \<Rightarrow> jsError + ServiceSchedule list" where
  "withoutReferences r = (case r of Inl e \<Rightarrow> Inl e | Inr sss \<Rightarrow> Inr (map eraseService sss))"

text \<open>The same blanking on the intermediate results of the mapper's three loops.\<close>

definition erasedCalls :: "jsError + (TransportCall list \<times> nat) \<Rightarrow> jsError + (TransportCall list \<times> nat)" where
  "erasedCalls r = (case r of Inl e \<Rightarrow> Inl e | Inr (cs, k) \<Rightarrow> Inr (map eraseCall cs, k))"

definition erasedVessels :: "jsError + (VesselSchedule list \<times> nat) \<Rightarrow> jsError + (VesselSchedule list \<times> nat)" where
  "erasedVessels r = (case r of Inl e \<Rightarrow> Inl e | Inr (vss, k) \<Rightarrow> Inr (map eraseVessel vss, k))"

definition erasedServices :: "jsError + (ServiceSchedule list \<times> nat) \<Rightarrow> jsError + (ServiceSchedule list \<times> nat)" where
  "erasedServices r = (case r of Inl e \<Rightarrow> Inl e | Inr (sss, k) \<Rightarrow> Inr (map eraseService sss, k))"

text \<open>Sample payloads: one port call without arrival and departure times, and one
  with the arrival of the HMM documentation.\<close>

definition callWithoutTimes :: HMMScheduleItem where
  "callWithoutTimes =
     \<lparr> vvdCode = Some ''ABCD0001E'', item_portCode = Some ''KRPUS'', portName = Some ''BUSAN'',
       tmnlCode = None, tmnlName = None, item_vesselName = Some ''HMM ALGECIRAS'',
       scheduleDirectionCode = None, arrival = None, departure = None \<rparr>"

definition callWithArrival :: HMMScheduleItem where
  "callWithArrival =
     callWithoutTimes\<lparr> arrival := Some \<lparr> arrivalDate = Some ''20210817'', arrivalTime = Some ''2100'',
                                         arrivalStatusCode = Some ''A'' \<rparr> \<rparr>"

text \<open>The same port call with an arrival date that is no calendar date, and with an
  arrival time that is the empty text.\<close>

definition callWithBadDate :: HMMScheduleItem where
  "callWithBadDate =
     callWithoutTimes\<lparr> arrival := Some \<lparr> arrivalDate = Some ''2021AB17'', arrivalTime = Some ''2100'',
                                         arrivalStatusCode = Some ''A'' \<rparr> \<rparr>"

definition callWithEmptyTime :: HMMScheduleItem where
  "callWithEmptyTime =
     callWithoutTimes\<lparr> arrival := Some \<lparr> arrivalDate = Some ''20210817'', arrivalTime = Some [],
                                         arrivalStatusCode = Some ''A'' \<rparr> \<rparr>"

definition responseOf :: "HMMScheduleItem list \<Rightarrow> HMMScheduleResponse" where
  "responseOf items = \<lparr> resultData = Some items, resultCode = Some ''Success'', resultMessage = None \<rparr>"

section \<open>Sub-API adapters\<close>

text \<open>
  An adapter reads its endpoint from \<^verbatim>\<open>this.config.apis.schedule\<close> and talks to the
  vendor through \<^verbatim>\<open>HttpClient.get\<close> or \<^verbatim>\<open>HttpClient.post\<close>.  The vendor is the argument
  \<^verbatim>\<open>http\<close>: the answer to a request is the response body or a thrown error.  An adapter
  returns the requests it handed to the HTTP client, in order, together with its
  result; \<^verbatim>\<open>Inl\<close> is a thrown error.
\<close>

record ApiConfig =
  endpoint :: string
  version :: string

record HttpRequest =
  httpMethod :: string
  url :: string
  queryParams :: "(string \<times> string) list"
  requestHeaders :: "(string \<times> string) list"
  requestBody :: "(string \<times> string) list option"

definition configuredEndpoint :: "ApiConfig option \<Rightarrow> string option" where
  "configuredEndpoint api =
     (case api of None \<Rightarrow> None | Some a \<Rightarrow> if endpoint a = [] then None else Some (endpoint a))"

text \<open>\<^verbatim>\<open>if (v) q.name = v\<close> on the query object, whose keys keep insertion order.\<close>

definition addIf :: "string \<Rightarrow> string option \<Rightarrow> (string \<times> string) list \<Rightarrow> (string \<times> string) list" where
  "addIf name v q = (if truthy v then q @ [(name, the v)] else q)"

text \<open>\<^verbatim>\<open>version.split('.')[0]\<close>.\<close>

definition majorVersion :: "string \<Rightarrow> string" where
  "majorVersion v = takeWhile (\<lambda>c. c \<noteq> CHR ''.'') v"

subsection \<open>Maersk vessel schedule\<close>

text \<open>
  The host's \<^verbatim>\<open>Date\<close>.  A \<^verbatim>\<open>Date\<close> is its time value, the milliseconds since the epoch
  in UTC, or \<^verbatim>\<open>None\<close> for an Invalid Date, every comparison with which is false.
  \<^verbatim>\<open>now h k\<close> is the time value of the \<^verbatim>\<open>k\<close>-th \<^verbatim>\<open>new Date()\<close> of a call.  The host's
  time zone has a fixed offset from UTC (as UTC itself, Asia/Seoul and America/Phoenix
  have): \<^verbatim>\<open>utcOffset h\<close> is local time minus UTC, in milliseconds.
\<close>

type_synonym jsDate = "int option"

definition msPerDay :: int where
  "msPerDay = 86400000"

record DateHost =
  now :: "nat \<Rightarrow> int"
  utcOffset :: int
  parseOther :: "string \<Rightarrow> jsDate"

text \<open>
  The proleptic Gregorian calendar of the language: the day number of a date (day 0 is
  1970-01-01) and the date of a day number.
\<close>

definition daysFromCivil :: "int \<Rightarrow> int \<Rightarrow> int \<Rightarrow> int" where
  "daysFromCivil y m d =
     (let y' = (if m \<le> 2 then y - 1 else y);
          era = y' div 400;
          yoe = y' - era * 400;
          doy = (153 * (if m > 2 then m - 3 else m + 9) + 2) div 5 + d - 1;
          doe = yoe * 365 + yoe div 4 - yoe div 100 + doy
      in era * 146097 + doe - 719468)"

definition civilFromDays :: "int \<Rightarrow> int \<times> int \<times> int" where
  "civilFromDays z =
     (let z' = z + 719468;
          era = z' div 146097;
          doe = z' - era * 146097;
          yoe = (doe - doe div 1460 + doe div 36524 - doe div 146096) div 365;
          doy = doe - (365 * yoe + yoe div 4 - yoe div 100);
          mp = (5 * doy + 2) div 153;
          d = doy - (153 * mp + 2) div 5 + 1;
          m = (if mp < 10 then mp + 3 else mp - 9)
      in (if m \<le> 2 then yoe + era * 400 + 1 else yoe + era * 400, m, d))"

definition daysInMonth :: "int \<Rightarrow> int \<Rightarrow> int" where
  "daysInMonth y m =
     (if m = 2
      then (if y mod 400 = 0 then 29 else if y mod 100 = 0 then 28
            else if y mod 4 = 0 then 29 else 28)
      else if m = 4 \<or> m = 6 \<or> m = 9 \<or> m = 11 then 30 else 31)"

definition digitValue :: "char \<Rightarrow> int option" where
  "digitValue c = map_of (zip ''0123456789'' [0, 1, 2, 3, 4, 5, 6, 7, 8, 9]) c"

fun digitsValue :: "int \<Rightarrow> string \<Rightarrow> int option" where
  "digitsValue acc [] = Some acc"
| "digitsValue acc (c # cs) =
     (case digitValue c of None \<Rightarrow> None | Some v \<Rightarrow> digitsValue (10 * acc + v) cs)"

text \<open>
  \<^verbatim>\<open>new Date(text)\<close>.  A text in the date-only form \<^verbatim>\<open>YYYY-MM-DD\<close> of the language's
  date-time string format, naming a day of the calendar, denotes the midnight that
  begins that day in UTC, whatever the host's zone.  What any other text denotes
  (a date-time form, which is local time without an offset, or a text the engine
  parses by rules of its own), and whether it is a date at all, is the host's
  \<^verbatim>\<open>parseOther\<close>.
\<close>

definition parseDateOnly :: "string \<Rightarrow> int option" where
  "parseDateOnly s =
     (if length s = 10 \<and> s ! 4 = CHR ''-'' \<and> s ! 7 = CHR ''-''
      then (case digitsValue 0 (take 4 s) of
              None \<Rightarrow> None
            | Some y \<Rightarrow>
                (case digitsValue 0 (take 2 (drop 5 s)) of
                   None \<Rightarrow> None
                 | Some m \<Rightarrow>
                     (case digitsValue 0 (drop 8 s) of
                        None \<Rightarrow> None
                      | Some d \<Rightarrow>
                          if 1 \<le> m \<and> m \<le> 12 \<and> 1 \<le> d \<and> d \<le> daysInMonth y m
                          then Some (daysFromCivil y m d * msPerDay) else None)))
      else None)"

definition newDate :: "DateHost \<Rightarrow> string \<Rightarrow> jsDate" where
  "newDate h s = (case parseDateOnly s of Some t \<Rightarrow> Some t | None \<Rightarrow> parseOther h s)"

text \<open>\<^verbatim>\<open>setHours(0, 0, 0, 0)\<close>: the midnight that begins the local day of the instant.\<close>

definition setHours0 :: "DateHost \<Rightarrow> int \<Rightarrow> int" where
  "setHours0 h t = (t + utcOffset h) div msPerDay * msPerDay - utcOffset h"

text \<open>The local calendar day of an instant, as a day number.\<close>

definition localDay :: "DateHost \<Rightarrow> int \<Rightarrow> int" where
  "localDay h t = (t + utcOffset h) div msPerDay"

text \<open>\<^verbatim>\<open>d.setDate(d.getDate() + n)\<close>: the same local time \<^verbatim>\<open>n\<close> calendar days later.\<close>

definition addDays :: "int \<Rightarrow> int \<Rightarrow> int" where
  "addDays n t = t + n * msPerDay"

text \<open>\<^verbatim>\<open>toISOString().split('T')[0]\<close>: the UTC date of the instant; years outside
  0 to 9999 are written with a sign and six digits.\<close>

definition padStart :: "nat \<Rightarrow> string \<Rightarrow> string" where
  "padStart w s = replicate (w - length s) CHR ''0'' @ s"

definition isoDate :: "int \<Rightarrow> string" where
  "isoDate t =
     (case civilFromDays (t div msPerDay) of
        (y, m, d) \<Rightarrow>
          (if 0 \<le> y \<and> y \<le> 9999 then padStart 4 (showNat (nat y))
           else (if y < 0 then ''-'' else ''+'') @ padStart 6 (showNat (nat \<bar>y\<bar>))) @
          ''-'' @ padStart 2 (showNat (nat m)) @ ''-'' @ padStart 2 (showNat (nat d)))"

text \<open>
  The guard of the adapter on one supplied date, at the \<^verbatim>\<open>k\<close>-th reading of the
  clock: \<^verbatim>\<open>today\<close>, \<^verbatim>\<open>minDate\<close> and \<^verbatim>\<open>maxDate\<close> are local midnights, and so is the supplied
  date after its \<^verbatim>\<open>setHours(0, 0, 0, 0)\<close>.
\<close>

definition minDate :: "DateHost \<Rightarrow> nat \<Rightarrow> int" where
  "minDate h k = addDays (- 90) (setHours0 h (now h k))"

definition maxDate :: "DateHost \<Rightarrow> nat \<Rightarrow> int" where
  "maxDate h k = addDays 180 (setHours0 h (now h k))"

definition outsideWindow :: "DateHost \<Rightarrow> nat \<Rightarrow> string \<Rightarrow> bool" where
  "outsideWindow h k s =
     (case newDate h s of
        None \<Rightarrow> False
      | Some t \<Rightarrow> setHours0 h t < minDate h k \<or> setHours0 h t > maxDate h k)"

definition rangeMessage :: "DateHost \<Rightarrow> nat \<Rightarrow> string \<Rightarrow> string \<Rightarrow> string" where
  "rangeMessage h k which s =
     ''Maersk Vessel Schedule API: '' @ which @
     '' Date must be within 90 days past and 180 days future from today. '' @
     ''Received: '' @ s @ '', Valid range: '' @ isoDate (minDate h k) @ '' to '' @
     isoDate (maxDate h k)"

definition MaerskScheduleAdapter_getSchedule ::
  "ApiConfig option \<Rightarrow> DateHost \<Rightarrow> (HttpRequest \<Rightarrow> jsError + ServiceSchedule list) \<Rightarrow>
   ScheduleQueryParams \<Rightarrow> HttpRequest list \<times> (jsError + ServiceSchedule list)" where
  "MaerskScheduleAdapter_getSchedule api h http params =
     (case configuredEndpoint api of
        None \<Rightarrow> ([], Inl (Error ''Schedule API endpoint not configured for Maersk''))
      | Some ep \<Rightarrow>
          if truthy (startDate params) \<and> outsideWindow h 0 (the (startDate params))
          then ([], Inl (Error (rangeMessage h 0 ''Start'' (the (startDate params)))))
          else
            (let k = (if truthy (startDate params) then 1 else 0) in
             if truthy (endDate params) \<and> outsideWindow h k (the (endDate params))
             then ([], Inl (Error (rangeMessage h k ''End'' (the (endDate params)))))
             else
               (let q = addIf ''vesselIMONumber'' (vesselIMONumber params) [];
                    q = addIf ''vesselName'' (vesselName params) q;
                    q = addIf ''carrierServiceCode'' (carrierServiceCode params) q;
                    q = addIf ''universalServiceReference'' (universalServiceReference params) q;
                    q = addIf ''carrierVoyageNumber'' (carrierVoyageNumber params) q;
                    q = addIf ''universalVoyageReference'' (universalVoyageReference params) q;
                    q = addIf ''UNLocationCode'' (UNLocationCode params) q;
                    q = addIf ''facilitySMDGCode'' (facilitySMDGCode params) q;
                    q = addIf ''vesselOperatorCarrierCode'' (vesselOperatorCarrierCode params) q;
                    q = addIf ''startDate'' (startDate params) q;
                    q = addIf ''endDate'' (endDate params) q;
                    q = (case limit params of
                           None \<Rightarrow> q
                         | Some n \<Rightarrow> if n = 0 then q else q @ [(''limit'', showInt n)]);
                    q = addIf ''cursor'' (cursor params) q;
                    hs = (if version (the api) \<noteq> []
                          then [(''API-Version'', majorVersion (version (the api)))] else []);
                    req = \<lparr> httpMethod = ''GET'', url = ep, queryParams = q,
                            requestHeaders = hs, requestBody = None \<rparr>
                in
                ([req],
                 case http req of
                   Inr response \<Rightarrow> Inr response
                 | Inl (AxiosError m (Some r)) \<Rightarrow>
                     Inl (Error (''Maersk Schedule API error: '' @ showNat (status r) @ '' '' @
                                 statusText r @ '' - '' @ dataJson r))
                 | Inl e \<Rightarrow> Inl e))))"

subsection \<open>HMM vessel schedule\<close>

definition HMMScheduleAdapter_getSchedule ::
  "ApiConfig option \<Rightarrow> clock \<Rightarrow> (string \<Rightarrow> string \<Rightarrow> int) \<Rightarrow>
   (HttpRequest \<Rightarrow> jsError + HMMScheduleResponse) \<Rightarrow>
   ScheduleQueryParams \<Rightarrow> HttpRequest list \<times> (jsError + ServiceSchedule list)" where
  "HMMScheduleAdapter_getSchedule api clk localeCompare http params =
     (case configuredEndpoint api of
        None \<Rightarrow> ([], Inl (Error ''Schedule API endpoint not configured for HMM''))
      | Some ep \<Rightarrow>
          if \<not> truthy (carrierVoyageNumber params)
          then ([], Inl (Error ''HMM Schedule API requires carrierVoyageNumber (vvdCode) parameter''))
          else
            (let req = \<lparr> httpMethod = ''POST'', url = ep,
                         queryParams = [(''vvdCode'', the (carrierVoyageNumber params))],
                         requestHeaders = [],
                         requestBody = Some [(''vvdCode'', the (carrierVoyageNumber params))] \<rparr>
             in
             ([req],
              case http req of
                Inr response \<Rightarrow>
                  if truthy (resultCode response) \<and> the (resultCode response) \<noteq> ''Success''
                  then Inl (Error (''HMM Schedule API error: '' @ the (resultCode response) @ '' - '' @
                                   orDefault (resultMessage response) ''Unknown error''))
                  else mapHMMScheduleToDCSA clk localeCompare response (carrierServiceCode params)
              | Inl (AxiosError m (Some r)) \<Rightarrow>
                  (case dataErrors r of
                     Some (reason, msg) \<Rightarrow>
                       Inl (Error (''HMM Schedule API error: '' @
                                   orDefault (dataStatusCode r) (showNat (status r)) @ '' '' @
                                   orDefault (dataStatusCodeText r) (statusText r) @ '' - '' @
                                   orDefault reason ''Unknown error'' @ '': '' @ orDefault msg []))
                   | None \<Rightarrow>
                       Inl (Error (''HMM Schedule API error: '' @ showNat (status r) @ '' '' @
                                   statusText r @ '' - '' @ dataJson r)))
              | Inl e \<Rightarrow> Inl e)))"

text \<open>\<^verbatim>\<open>HMMAdapter.getSchedule\<close>: the carrier router, its three adapters as arguments.\<close>

definition HMMAdapter_getSchedule ::
  "(ScheduleQueryParams \<Rightarrow> 'r) \<Rightarrow> (ScheduleQueryParams \<Rightarrow> 'r) \<Rightarrow> (ScheduleQueryParams \<Rightarrow> 'r) \<Rightarrow>
   ScheduleQueryParams \<Rightarrow> 'r" where
  "HMMAdapter_getSchedule scheduleAdapter ptpScheduleAdapter portScheduleAdapter params =
     (if truthy (carrierVoyageNumber params) then scheduleAdapter params
      else if truthy (fromLocationCode params) \<and> truthy (toLocationCode params) \<and>
              truthy (periodDate params)
      then ptpScheduleAdapter params
      else if truthy (UNLocationCode params) \<and> truthy (startDate params) \<and>
              truthy (endDate params)
      then portScheduleAdapter params
      else scheduleAdapter params)"

subsection \<open>ZIM point-to-point schedule\<close>

text \<open>\<^verbatim>\<open>ZIMScheduleAdapter.getSchedule\<close>; \<^verbatim>\<open>mapper\<close> is \<^verbatim>\<open>mapZIMScheduleToDCSA\<close>.\<close>

definition ZIMScheduleAdapter_getSchedule ::
  "ApiConfig option \<Rightarrow> ('resp \<Rightarrow> ServiceSchedule list) \<Rightarrow> (HttpRequest \<Rightarrow> jsError + 'resp) \<Rightarrow>
   ScheduleQueryParams \<Rightarrow> HttpRequest list \<times> (jsError + ServiceSchedule list)" where
  "ZIMScheduleAdapter_getSchedule api mapper http params =
     (case configuredEndpoint api of
        None \<Rightarrow> ([], Inl (Error ''Schedule API endpoint not configured for ZIM''))
      | Some ep \<Rightarrow>
          if truthy (UNLocationCode params)
          then ([], Inl (Error (''ZIM Schedule API requires both origin and destination locations. '' @
                               ''Please provide originCode and destCode via extended query parameters.'')))
          else
            (let q = addIf ''fromDate'' (startDate params) [];
                 q = addIf ''toDate'' (endDate params) q;
                 q = q @ [(''sortByDepartureOrArrival'', ''Departure'')];
                 req = \<lparr> httpMethod = ''GET'', url = ep, queryParams = q,
                         requestHeaders = [], requestBody = None \<rparr>
             in
             ([req],
              case http req of
                Inr response \<Rightarrow> Inr (mapper response)
              | Inl (AxiosError m (Some r)) \<Rightarrow>
                  Inl (Error (''ZIM Schedule API error: '' @ showNat (status r) @ '' '' @
                              statusText r @ '' - '' @ dataJson r))
              | Inl e \<Rightarrow> Inl e)))"

text \<open>\<^verbatim>\<open>ZIMAdapter.getSchedule\<close> hands every query to its only schedule adapter.\<close>

definition ZIMAdapter_getSchedule :: "(ScheduleQueryParams \<Rightarrow> 'r) \<Rightarrow> ScheduleQueryParams \<Rightarrow> 'r" where
  "ZIMAdapter_getSchedule scheduleAdapter params = scheduleAdapter params"

text \<open>A configured schedule endpoint and a vendor that cannot be reached.\<close>

definition scheduleApi :: "ApiConfig option" where
  "scheduleApi = Some \<lparr> endpoint = ''/schedules/vessel-schedules'', version = ''1.0.0'' \<rparr>"

definition noVendor :: "HttpRequest \<Rightarrow> jsError + 'a" where
  "noVendor req = Inl (AxiosError ''Network Error'' None)"

text \<open>
  Sample hosts at the instant 2026-11-02T08:00:00Z: one in a zone seven hours west of
  UTC, where it is one in the morning, one on UTC and one nine hours east of UTC.  On
  each of them today is 2026-11-02, 90 days earlier is 2026-08-04 and 180 days later
  is 2027-05-01.
\<close>

definition westHost :: DateHost where
  "westHost = \<lparr> now = (\<lambda>k. 1793606400000), utcOffset = - 25200000, parseOther = (\<lambda>s. None) \<rparr>"

definition utcHost :: DateHost where
  "utcHost = \<lparr> now = (\<lambda>k. 1793606400000), utcOffset = 0, parseOther = (\<lambda>s. None) \<rparr>"

definition eastHost :: DateHost where
  "eastHost = \<lparr> now = (\<lambda>k. 1793606400000), utcOffset = 32400000, parseOther = (\<lambda>s. None) \<rparr>"

section \<open>Credential manager\<close>

text \<open>
  \<^verbatim>\<open>config.auth\<close> of a carrier.  The key tables are indexed by endpoint type;
  \<^verbatim>\<open>process.env\<close> is a map from variable names to values.
\<close>

record AuthConfig =
  authType :: string
  tokenUrl :: "string option"
  scopes :: "string list option"
  headerName :: "string option"
  headerNames :: "(string \<rightharpoonup> string) option"
  apiKeys :: "(string \<rightharpoonup> string) option"
  primaryKeys :: "(string \<rightharpoonup> string) option"
  secondaryKeys :: "(string \<rightharpoonup> string) option"

definition getEnvVar :: "(string \<rightharpoonup> string) \<Rightarrow> string \<Rightarrow> string option" where
  "getEnvVar env key = env key"

text \<open>\<^verbatim>\<open>endpointType && table && table[endpointType]\<close>: the configured name, when all
  three are truthy.\<close>

definition keyFor :: "(string \<rightharpoonup> string) option \<Rightarrow> string option \<Rightarrow> string option" where
  "keyFor table endpointType =
     (if truthy endpointType
      then (case table of
              None \<Rightarrow> None
            | Some t \<Rightarrow> if truthy (t (the endpointType)) then t (the endpointType) else None)
      else None)"

definition getApiKey ::
  "string \<Rightarrow> AuthConfig \<Rightarrow> (string \<rightharpoonup> string) \<Rightarrow> string option \<Rightarrow> jsError + string" where
  "getApiKey carrierCode auth env endpointType =
     (let primaryName = keyFor (primaryKeys auth) endpointType;
          secondaryName = keyFor (secondaryKeys auth) endpointType;
          genericName = keyFor (apiKeys auth) endpointType
      in
      if primaryName \<noteq> None \<and> truthy (getEnvVar env (the primaryName))
      then Inr (the (getEnvVar env (the primaryName)))
      else if secondaryName \<noteq> None \<and> truthy (getEnvVar env (the secondaryName))
      then Inr (the (getEnvVar env (the secondaryName)))
      else if genericName \<noteq> None \<and> truthy (getEnvVar env (the genericName))
      then Inr (the (getEnvVar env (the genericName)))
      else if truthy (getEnvVar env (carrierCode @ ''_API_KEY''))
      then Inr (the (getEnvVar env (carrierCode @ ''_API_KEY'')))
      else
        (let errorMessages =
               (case primaryName of None \<Rightarrow> [] | Some n \<Rightarrow> [n @ '' (Primary Key)'']) @
               (case secondaryName of None \<Rightarrow> [] | Some n \<Rightarrow> [n @ '' (Secondary Key)'']) @
               (case genericName of None \<Rightarrow> [] | Some n \<Rightarrow> [n])
         in
         if truthy endpointType \<and> length errorMessages > 0
         then Inl (Error (''API Key not found for carrier: '' @ carrierCode @ '', endpoint: '' @
                          the endpointType @ ''. '' @ ''Please set one of: '' @
                          join '', '' errorMessages))
         else Inl (Error (''API Key not found for carrier: '' @ carrierCode @ ''. '' @
                          ''Please set '' @ carrierCode @ ''_API_KEY environment variable.''))))"

text \<open>The OAuth2 token cache, the token endpoint's answer and the grant request.
  \<^verbatim>\<open>post\<close> stands for the token endpoint.\<close>

record TokenCache =
  token :: string
  expiresAt :: nat
  tokenType :: string

record OAuth2Token =
  access_token :: string
  token_type :: "string option"
  expires_in :: nat

record TokenRequest =
  tokenEndpoint :: string
  grant_type :: string
  client_id :: string
  client_secret :: string
  scope :: string

definition getOAuth2Token ::
  "clock \<Rightarrow> (string \<rightharpoonup> string) \<Rightarrow> (TokenRequest \<Rightarrow> jsError + OAuth2Token) \<Rightarrow> string \<Rightarrow>
   AuthConfig \<Rightarrow> (string \<rightharpoonup> TokenCache) \<times> nat \<Rightarrow>
   (jsError + TokenCache) \<times> ((string \<rightharpoonup> TokenCache) \<times> nat)" where
  "getOAuth2Token clk env post carrierCode auth st =
     (case st of (cache, k) \<Rightarrow>
      (let cacheKey = carrierCode @ ''_oauth2'';
           cached = cache cacheKey;
           k1 = (if cached = None then k else Suc k)
       in
       if cached \<noteq> None \<and> expiresAt (the cached) > clk k + 5 * 60 * 1000
       then (Inr (the cached), (cache, k1))
       else
         (let clientId = orElse (getEnvVar env (carrierCode @ ''_CLIENT_ID''))
                                (getEnvVar env (carrierCode @ ''_CONSUMER_KEY''));
              clientSecret = orElse (getEnvVar env (carrierCode @ ''_CLIENT_SECRET''))
                                    (getEnvVar env (carrierCode @ ''_SECRET_KEY''))
          in
          if \<not> truthy clientId \<or> \<not> truthy clientSecret
          then (Inl (Error
                  (if carrierCode = ''MAERSK''
                   then ''OAuth2 credentials not found for carrier: '' @ carrierCode @ ''. '' @
                        ''Please set '' @ carrierCode @ ''_CONSUMER_KEY and '' @ carrierCode @
                        ''_SECRET_KEY (or '' @ carrierCode @ ''_CLIENT_ID and '' @ carrierCode @
                        ''_CLIENT_SECRET) environment variables.''
                   else ''OAuth2 credentials not found for carrier: '' @ carrierCode @ ''. '' @
                        ''Please set '' @ carrierCode @ ''_CLIENT_ID and '' @ carrierCode @
                        ''_CLIENT_SECRET environment variables.'')), (cache, k1))
          else if \<not> truthy (tokenUrl auth)
          then (Inl (Error (''OAuth2 token URL not configured for carrier: '' @ carrierCode)),
                (cache, k1))
          else
            (case post \<lparr> tokenEndpoint = the (tokenUrl auth),
                         grant_type = ''client_credentials'',
                         client_id = the clientId,
                         client_secret = the clientSecret,
                         scope = (case scopes auth of None \<Rightarrow> [] | Some ss \<Rightarrow> join '' '' ss) \<rparr> of
               Inr tokenData \<Rightarrow>
                 (let entry = \<lparr> token = access_token tokenData,
                                expiresAt = clk k1 + expires_in tokenData * 1000,
                                tokenType = orDefault (token_type tokenData) ''Bearer'' \<rparr>
                  in (Inr entry, (cache(cacheKey \<mapsto> entry), Suc k1)))
             | Inl (AxiosError m r) \<Rightarrow>
                 (Inl (Error (''Failed to obtain OAuth2 token for '' @ carrierCode @ '': '' @
                              (case r of None \<Rightarrow> ''undefined'' | Some x \<Rightarrow> showNat (status x)) @ '' '' @
                              (case r of None \<Rightarrow> ''undefined'' | Some x \<Rightarrow> statusText x) @ '' - '' @
                              (case r of None \<Rightarrow> ''undefined'' | Some x \<Rightarrow> dataJson x))),
                  (cache, k1))
             | Inl e \<Rightarrow> (Inl e, (cache, k1))))))"

text \<open>The env var of the supplementary API key of an OAuth2 carrier: the table's entry
  for the endpoint type, else its \<^verbatim>\<open>schedule\<close> entry, else its \<^verbatim>\<open>tracking\<close> entry; none
  when the configuration names no header or has no table.\<close>

definition supplementaryKeyEnvVar :: "AuthConfig \<Rightarrow> string option \<Rightarrow> string option" where
  "supplementaryKeyEnvVar auth endpointType =
     (if truthy (headerName auth) \<and> apiKeys auth \<noteq> None
      then (let apiKeyEnvVar =
                  (if keyFor (apiKeys auth) endpointType \<noteq> None
                   then keyFor (apiKeys auth) endpointType
                   else orElse (the (apiKeys auth) ''schedule'') (the (apiKeys auth) ''tracking''))
            in if truthy apiKeyEnvVar then apiKeyEnvVar else None)
      else None)"

text \<open>Assignment to a property of the headers object.\<close>

fun setHeader :: "string \<Rightarrow> string \<Rightarrow> (string \<times> string) list \<Rightarrow> (string \<times> string) list" where
  "setHeader name v [] = [(name, v)]"
| "setHeader name v ((n, w) # rest) =
     (if n = name then (n, v) # rest else (n, w) # setHeader name v rest)"

definition getAuthHeaders ::
  "clock \<Rightarrow> (string \<rightharpoonup> string) \<Rightarrow> (TokenRequest \<Rightarrow> jsError + OAuth2Token) \<Rightarrow> string \<Rightarrow>
   AuthConfig \<Rightarrow> string option \<Rightarrow> (string \<rightharpoonup> TokenCache) \<times> nat \<Rightarrow>
   (jsError + (string \<times> string) list) \<times> ((string \<rightharpoonup> TokenCache) \<times> nat)" where
  "getAuthHeaders clk env post carrierCode auth endpointType st =
     (if authType auth = ''oauth2''
      then
        (case getOAuth2Token clk env post carrierCode auth st of
           (Inl e, st') \<Rightarrow> (Inl e, st')
         | (Inr tok, st') \<Rightarrow>
             (let headers = [(''Authorization'', tokenType tok @ '' '' @ token tok)] in
              case supplementaryKeyEnvVar auth endpointType of
                None \<Rightarrow> (Inr headers, st')
              | Some apiKeyEnvVar \<Rightarrow>
                  if truthy (getEnvVar env apiKeyEnvVar)
                  then (Inr (setHeader (the (headerName auth)) (the (getEnvVar env apiKeyEnvVar)) headers), st')
                  else (Inr headers, st')))
      else if authType auth = ''apikey''
      then
        (case getApiKey carrierCode auth env endpointType of
           Inl e \<Rightarrow> (Inl e, st)
         | Inr apiKey \<Rightarrow>
             (let name = (if keyFor (headerNames auth) endpointType \<noteq> None
                          then the (keyFor (headerNames auth) endpointType)
                          else orDefault (headerName auth) ''KeyId'')
              in (Inr [(name, apiKey)], st)))
      else (Inr [], st))"





definition maerskAuth :: AuthConfig where
  "maerskAuth =
     \<lparr> authType = ''oauth2'', tokenUrl = Some ''https://api.maersk.com/oauth2/access_token'',
       scopes = None, headerName = Some ''Consumer-Key'', headerNames = None,
       apiKeys = Some [''schedule'' \<mapsto> ''MAERSK_SCHEDULE_API_KEY''],
       primaryKeys = None, secondaryKeys = None \<rparr>"

definition maerskEnv :: "string \<rightharpoonup> string" where
  "maerskEnv = [''MAERSK_CONSUMER_KEY'' \<mapsto> ''ck'', ''MAERSK_SECRET_KEY'' \<mapsto> ''sk'']"

definition tokenEndpointOk :: "TokenRequest \<Rightarrow> jsError + OAuth2Token" where
  "tokenEndpointOk req = Inr \<lparr> access_token = ''tok'', token_type = Some ''Bearer'', expires_in = 7200 \<rparr>"

section \<open>Properties\<close>

lemma truthy_orElse: "truthy (orElse a b) = (truthy a \<or> truthy b)"
  by (simp add: orElse_def)

text \<open>
  C3.  CMA CGM sub-API selection follows the fixed precedence Route, Proforma, Voyage,
  Commercial Schedule.  Whenever a loading and a discharge location are present the
  Route adapter answers, whatever else the bag holds (so also when Proforma's or
  Voyage's triggers are satisfied); otherwise, whenever a Proforma trigger is present
  the Proforma adapter answers, also when a Voyage trigger is present; otherwise a
  Voyage trigger selects the Voyage adapter; otherwise the Commercial Schedule adapter
  answers.  The adapters are arbitrary, so the equations determine which one was
  called.
\<close>

theorem C3_cmacgm_precedence:
  "(routeTrigger params \<longrightarrow>
      CMACGMAdapter_getSchedule r p v s params = r params) \<and>
   (\<not> routeTrigger params \<and> proformaTrigger params \<longrightarrow>
      CMACGMAdapter_getSchedule r p v s params = p params) \<and>
   (\<not> routeTrigger params \<and> \<not> proformaTrigger params \<and> voyageTrigger params \<longrightarrow>
      CMACGMAdapter_getSchedule r p v s params = v params) \<and>
   (\<not> routeTrigger params \<and> \<not> proformaTrigger params \<and> \<not> voyageTrigger params \<longrightarrow>
      CMACGMAdapter_getSchedule r p v s params = s params)"
  unfolding CMACGMAdapter_getSchedule_def routeTrigger_def proformaTrigger_def
    voyageTrigger_def Let_def truthy_orElse
  by auto

theorem C3_cmacgm_precedence_witness:
  "routeTrigger (noParams\<lparr>placeOfLoading := Some ''FRLEH'', placeOfDischarge := Some ''USNYC'',
       serviceCode := Some ''FAL1'', voyageCode := Some ''0FL8XW1MA''\<rparr>) \<and>
   CMACGMAdapter_getSchedule (\<lambda>_. Route) (\<lambda>_. Proforma) (\<lambda>_. Voyage) (\<lambda>_. CommercialSchedule)
     (noParams\<lparr>placeOfLoading := Some ''FRLEH'', placeOfDischarge := Some ''USNYC'',
       serviceCode := Some ''FAL1'', voyageCode := Some ''0FL8XW1MA''\<rparr>) = Route \<and>
   \<not> routeTrigger (noParams\<lparr>serviceCode := Some ''FAL1'', voyageCode := Some ''0FL8XW1MA''\<rparr>) \<and>
   proformaTrigger (noParams\<lparr>serviceCode := Some ''FAL1'', voyageCode := Some ''0FL8XW1MA''\<rparr>) \<and>
   voyageTrigger (noParams\<lparr>serviceCode := Some ''FAL1'', voyageCode := Some ''0FL8XW1MA''\<rparr>) \<and>
   CMACGMAdapter_getSchedule (\<lambda>_. Route) (\<lambda>_. Proforma) (\<lambda>_. Voyage) (\<lambda>_. CommercialSchedule)
     (noParams\<lparr>serviceCode := Some ''FAL1'', voyageCode := Some ''0FL8XW1MA''\<rparr>) = Proforma \<and>
   \<not> proformaTrigger (noParams\<lparr>voyageCode := Some ''0FL8XW1MA''\<rparr>) \<and>
   voyageTrigger (noParams\<lparr>voyageCode := Some ''0FL8XW1MA''\<rparr>) \<and>
   CMACGMAdapter_getSchedule (\<lambda>_. Route) (\<lambda>_. Proforma) (\<lambda>_. Voyage) (\<lambda>_. CommercialSchedule)
     (noParams\<lparr>voyageCode := Some ''0FL8XW1MA''\<rparr>) = Voyage \<and>
   \<not> voyageTrigger noParams \<and>
   CMACGMAdapter_getSchedule (\<lambda>_. Route) (\<lambda>_. Proforma) (\<lambda>_. Voyage) (\<lambda>_. CommercialSchedule)
     noParams = CommercialSchedule"
proof -
  let ?g = "CMACGMAdapter_getSchedule (\<lambda>_. Route) (\<lambda>_. Proforma) (\<lambda>_. Voyage) (\<lambda>_. CommercialSchedule)"
  let ?a = "noParams\<lparr>placeOfLoading := Some ''FRLEH'', placeOfDischarge := Some ''USNYC'',
       serviceCode := Some ''FAL1'', voyageCode := Some ''0FL8XW1MA''\<rparr>"
  let ?b = "noParams\<lparr>serviceCode := Some ''FAL1'', voyageCode := Some ''0FL8XW1MA''\<rparr>"
  let ?c = "noParams\<lparr>voyageCode := Some ''0FL8XW1MA''\<rparr>"
  have ta: "routeTrigger ?a"
    by (simp add: routeTrigger_def noParams_def truthy_def)
  have tb: "\<not> routeTrigger ?b" "proformaTrigger ?b" "voyageTrigger ?b"
    by (simp_all add: routeTrigger_def proformaTrigger_def voyageTrigger_def noParams_def
        truthy_def)
  have tc: "\<not> routeTrigger ?c" "\<not> proformaTrigger ?c" "voyageTrigger ?c"
    by (simp_all add: routeTrigger_def proformaTrigger_def voyageTrigger_def noParams_def
        truthy_def)
  have td: "\<not> routeTrigger noParams" "\<not> proformaTrigger noParams" "\<not> voyageTrigger noParams"
    by (simp_all add: routeTrigger_def proformaTrigger_def voyageTrigger_def noParams_def
        truthy_def truthyQ_def)
  have a: "?g ?a = Route"
    using C3_cmacgm_precedence [of ?a "\<lambda>_. Route" "\<lambda>_. Proforma" "\<lambda>_. Voyage" "\<lambda>_. CommercialSchedule"] ta
    by blast
  have b: "?g ?b = Proforma"
    using C3_cmacgm_precedence [of ?b "\<lambda>_. Route" "\<lambda>_. Proforma" "\<lambda>_. Voyage" "\<lambda>_. CommercialSchedule"] tb
    by blast
  have c: "?g ?c = Voyage"
    using C3_cmacgm_precedence [of ?c "\<lambda>_. Route" "\<lambda>_. Proforma" "\<lambda>_. Voyage" "\<lambda>_. CommercialSchedule"] tc
    by blast
  have d: "?g noParams = CommercialSchedule"
    using C3_cmacgm_precedence [of noParams "\<lambda>_. Route" "\<lambda>_. Proforma" "\<lambda>_. Voyage" "\<lambda>_. CommercialSchedule"] td
    by blast
  from ta tb tc td a b c d show ?thesis by blast
qed


subsection \<open>Fan-out aggregator\<close>

lemma orDefault_twice: "d \<noteq> [] \<Longrightarrow> orDefault (Some (orDefault a d)) n = orDefault a d"
  by (simp add: orDefault_def split: option.splits)

lemma processResults_query:
  "processResults noneMsg (map (queryCarrier call) cs) acc errs =
     (acc @ concat (map (\<lambda>c. case call c of
                               Inr (name, recs) \<Rightarrow>
                                 map (\<lambda>x. \<lparr> payload = x, fromCarrier = c, fromCarrierName = Some name \<rparr>) recs
                             | Inl e \<Rightarrow> []) cs),
      errs @ concat (map (\<lambda>c. case call c of
                               Inr _ \<Rightarrow> []
                             | Inl e \<Rightarrow> [\<lparr> failedCarrier = c,
                                           failure = orDefault (Some (message e)) ''Unknown error'' \<rparr>]) cs))"
proof (induction cs arbitrary: acc errs)
  case Nil
  show ?case by simp
next
  case (Cons c cs)
  show ?case
  proof (cases "call c")
    case (Inl e)
    then have q: "queryCarrier call c =
        Fulfilled \<lparr> carrier = c, carrierName = None, success = False, schedules = None,
                    error = Some (orDefault (Some (message e)) ''Unknown error'') \<rparr>"
      by (simp add: queryCarrier_def)
    show ?thesis
      by (simp add: q Inl Cons.IH orDefault_twice)
  next
    case (Inr r)
    obtain name recs where r: "r = (name, recs)" by (cases r)
    with Inr have q: "queryCarrier call c =
        Fulfilled \<lparr> carrier = c, carrierName = Some name, success = True,
                    schedules = Some recs, error = None \<rparr>"
      by (simp add: queryCarrier_def)
    show ?thesis
      by (simp add: q Inr r Cons.IH)
  qed
qed

text \<open>
  What the aggregator does for every set of carriers: each carrier's error becomes a
  record of its own, the records of the carriers that answered are merged in order
  (lemma \<open>processResults_query\<close>), and the answer is the collective failure exactly when
  no record at all was returned and some carrier threw.
\<close>

lemma fanOut_outcome:
  "cs \<noteq> [] \<Longrightarrow>
   (\<exists>errs. fanOut noneMsg call cs = AllCarriersFailed503 errs) =
     ((\<forall>c \<in> set cs. case call c of Inr (name, recs) \<Rightarrow> recs = [] | Inl e \<Rightarrow> True) \<and>
      (\<exists>c \<in> set cs. \<not> carrierSucceeded call c))"
proof -
  assume ne: "cs \<noteq> []"
  let ?recs = "concat (map (\<lambda>c. case call c of
                               Inr (name, recs) \<Rightarrow>
                                 map (\<lambda>x. \<lparr> payload = x, fromCarrier = c, fromCarrierName = Some name \<rparr>) recs
                             | Inl e \<Rightarrow> []) cs)"
  let ?errs = "concat (map (\<lambda>c. case call c of
                               Inr _ \<Rightarrow> []
                             | Inl e \<Rightarrow> [\<lparr> failedCarrier = c,
                                           failure = orDefault (Some (message e)) ''Unknown error'' \<rparr>]) cs)"
  have r: "(?recs = []) = (\<forall>c \<in> set cs. case call c of Inr (name, recs) \<Rightarrow> recs = [] | Inl e \<Rightarrow> True)"
    by (auto split: sum.splits)
  have e: "(?errs \<noteq> []) = (\<exists>c \<in> set cs. \<not> carrierSucceeded call c)"
    by (auto simp: carrierSucceeded_def split: sum.splits)
  have "(\<exists>errs. fanOut noneMsg call cs = AllCarriersFailed503 errs) = (?recs = [] \<and> ?errs \<noteq> [])"
    using ne by (simp add: fanOut_def processResults_query[of noneMsg call cs "[]" "[]"])
  with r e show ?thesis by simp
qed

text \<open>
  C1.  The claim asks for an overall success exactly when at least one carrier
  succeeded, a carrier answering with zero records included.  With HMM answering an
  empty list and ZIM throwing, HMM succeeded, and the controller nevertheless answers
  503 \<^verbatim>\<open>All carriers failed\<close> carrying ZIM's error only.
\<close>

theorem C1_empty_success_reported_as_failure:
  "carrierSucceeded emptyAndFailing ''HMM'' \<and>
   \<not> isSuccess (getSchedules emptyAndFailing [''HMM'', ''ZIM'']) \<and>
   getSchedules emptyAndFailing [''HMM'', ''ZIM''] =
     AllCarriersFailed503
       [\<lparr> failedCarrier = ''ZIM'',
          failure = ''ZIM Schedule API requires both origin and destination locations'' \<rparr>] \<and>
   getTracking emptyAndFailing [''HMM'', ''ZIM''] =
     AllCarriersFailed503
       [\<lparr> failedCarrier = ''ZIM'',
          failure = ''ZIM Schedule API requires both origin and destination locations'' \<rparr>]"
  by (simp add: carrierSucceeded_def getSchedules_def getTracking_def fanOut_def
      queryCarrier_def emptyAndFailing_def orDefault_def)

subsection \<open>Evaluation of the HMM schedule mapper\<close>

lemmas hmm_eval =
  mapHMMScheduleToDCSA_def responseOf_def callWithoutTimes_def callWithArrival_def
  groupBy_def orDefault_def orElse_def sortBy_def itemSortDate_def itemTimestamps_def
  arrivalTimestamps_def departureTimestamps_def truthy_def extractServiceCodeFromVVD_def
  isUpperAZ_def convertHMMDateTime_def substring_def mapStatusCodeToClassifier_def
  toUpperCase_def upperChar_def generateTransportCallReference_def showNat.simps Let_def
  digitChar_def

text \<open>
  C2.  The claim asks that every \<^verbatim>\<open>ServiceSchedule\<close> a mapper returns has a vessel
  schedule with at least one transport call.  The HMM schedule mapper has no such
  filter: for a payload of one port call that carries neither arrival nor departure
  times it returns, whatever the clock and the collation, one service schedule whose
  only vessel schedule has no transport calls.
\<close>

theorem C2_hmm_mapper_returns_schedule_without_calls:
  "mapHMMScheduleToDCSA clk localeCompare (responseOf [callWithoutTimes]) None =
     Inr [\<lparr> ss_carrierServiceCode = ''ABCD'', carrierServiceName = ''ABCD'',
            vesselSchedules =
              [\<lparr> isDummyVessel = False,
                 vessel = Some \<lparr> v_vesselIMONumber = ''0000000'', v_name = Some ''HMM ALGECIRAS'' \<rparr>,
                 transportCalls = None \<rparr>] \<rparr>] \<and>
   \<not> hasTransportCalls
        \<lparr> ss_carrierServiceCode = ''ABCD'', carrierServiceName = ''ABCD'',
          vesselSchedules =
            [\<lparr> isDummyVessel = False,
               vessel = Some \<lparr> v_vesselIMONumber = ''0000000'', v_name = Some ''HMM ALGECIRAS'' \<rparr>,
               transportCalls = None \<rparr>] \<rparr>"
  by (simp add: hmm_eval hasTransportCalls_def)

subsection \<open>Decimal rendering is injective\<close>

lemma showNat_small: "n < 10 \<Longrightarrow> showNat n = [digitChar n]"
  by (subst showNat.simps) simp

lemma showNat_large: "\<not> n < 10 \<Longrightarrow> showNat n = showNat (n div 10) @ [digitChar (n mod 10)]"
  by (subst showNat.simps) simp

lemma showNat_nonempty: "showNat n \<noteq> []"
  by (cases "n < 10") (simp_all add: showNat_small showNat_large)

lemma digitChar_inj: "a < 10 \<Longrightarrow> b < 10 \<Longrightarrow> digitChar a = digitChar b \<Longrightarrow> a = b"
proof -
  assume a: "a < 10" and b: "b < 10" and e: "digitChar a = digitChar b"
  have A: "a \<in> {0,1,2,3,4,5,6,7,8,9}" using a by auto
  have B: "b \<in> {0,1,2,3,4,5,6,7,8,9}" using b by auto
  from A B e show ?thesis by (auto simp: digitChar_def)
qed

lemma showNat_inj: "showNat n = showNat m \<Longrightarrow> n = m"
proof (induction n arbitrary: m rule: showNat.induct)
  case (1 n)
  show ?case
  proof (cases "n < 10")
    case True
    note sn = showNat_small[OF True]
    show ?thesis
    proof (cases "m < 10")
      case mt: True
      note sm = showNat_small[OF mt]
      from sn sm "1.prems" have "digitChar n = digitChar m" by simp
      with True mt show ?thesis by (rule digitChar_inj)
    next
      case mf: False
      note sm = showNat_large[OF mf]
      from sn sm "1.prems" showNat_nonempty[of "m div 10"] show ?thesis
        by (cases "showNat (m div 10)") simp_all
    qed
  next
    case False
    note sn = showNat_large[OF False]
    show ?thesis
    proof (cases "m < 10")
      case mt: True
      note sm = showNat_small[OF mt]
      from sn sm "1.prems" showNat_nonempty[of "n div 10"] show ?thesis
        by (cases "showNat (n div 10)") simp_all
    next
      case mf: False
      note sm = showNat_large[OF mf]
      from sn sm "1.prems" have e1: "showNat (n div 10) = showNat (m div 10)"
        and e2: "digitChar (n mod 10) = digitChar (m mod 10)"
        by simp_all
      from "1.IH"[OF False e1] have d: "n div 10 = m div 10" .
      have "n mod 10 = m mod 10"
        by (rule digitChar_inj[OF _ _ e2]) simp_all
      with d show ?thesis by (metis div_mult_mod_eq)
    qed
  qed
qed

subsection \<open>The clock reaches the HMM mapper's output through the references only\<close>

lemma erasedCalls_step:
  "erasedCalls (mapSortedItems clk vvd (item # rest) k) =
     (case itemTimestamps item of
        Inl e \<Rightarrow> Inl e
      | Inr ts \<Rightarrow>
          if ts = [] then erasedCalls (mapSortedItems clk vvd rest k)
          else (case erasedCalls (mapSortedItems clk vvd rest (Suc k)) of
                  Inl e \<Rightarrow> Inl e
                | Inr (cs, k'') \<Rightarrow>
                    Inr (\<lparr> transportCallReference = [],
                           carrierImportVoyageNumber = vvd,
                           carrierExportVoyageNumber = Some vvd,
                           location = \<lparr> loc_UNLocationCode = item_portCode item,
                                        locationName = portName item,
                                        loc_facilitySMDGCode = tmnlCode item \<rparr>,
                           timestamps = ts \<rparr> # cs, k'')))"
  by (simp add: erasedCalls_def generateTransportCallReference_def eraseCall_def
      split: sum.splits prod.splits)

lemma erasedCalls_clock:
  "erasedCalls (mapSortedItems clk1 vvd items k) = erasedCalls (mapSortedItems clk2 vvd items k)"
proof (induction items arbitrary: k)
  case Nil
  show ?case by (simp add: erasedCalls_def)
next
  case (Cons item rest)
  show ?case
    unfolding erasedCalls_step by (simp add: Cons.IH split: sum.splits)
qed

lemma erasedVessels_step:
  "erasedVessels (mapVessels clk cmp vvd ((name, items) # rest) k) =
     (case erasedCalls (mapSortedItems clk vvd
               (sortBy (\<lambda>a b. cmp (itemSortDate a) (itemSortDate b)) items) k) of
        Inl e \<Rightarrow> Inl e
      | Inr (cs, k') \<Rightarrow>
          (case erasedVessels (mapVessels clk cmp vvd rest k') of
             Inl e \<Rightarrow> Inl e
           | Inr (vss, k'') \<Rightarrow>
               Inr (\<lparr> isDummyVessel = (name = ''UNKNOWN''),
                      vessel = (if name \<noteq> ''UNKNOWN''
                                then Some \<lparr> v_vesselIMONumber = ''0000000'', v_name = Some name \<rparr>
                                else None),
                      transportCalls = (if cs \<noteq> [] then Some cs else None) \<rparr> # vss, k'')))"
  by (simp add: erasedVessels_def erasedCalls_def eraseVessel_def
      split: sum.splits prod.splits)

lemma erasedVessels_clock:
  "erasedVessels (mapVessels clk1 cmp vvd groups k) = erasedVessels (mapVessels clk2 cmp vvd groups k)"
proof (induction groups arbitrary: k)
  case Nil
  show ?case by (simp add: erasedVessels_def)
next
  case (Cons g rest)
  obtain name items where g: "g = (name, items)" by (cases g)
  show ?case
    unfolding g erasedVessels_step
    by (simp add: Cons.IH erasedCalls_clock[of clk1 _ _ _ clk2] split: sum.splits)
qed

lemma erasedServices_step:
  "erasedServices (mapVoyages clk cmp svc ((vvd, items) # rest) k) =
     (case erasedVessels (mapVessels clk cmp vvd
               (groupBy (\<lambda>item. orDefault (item_vesselName item) ''UNKNOWN'') items) k) of
        Inl e \<Rightarrow> Inl e
      | Inr (vss, k') \<Rightarrow>
          (case erasedServices (mapVoyages clk cmp svc rest k') of
             Inl e \<Rightarrow> Inl e
           | Inr (sss, k'') \<Rightarrow>
               Inr (\<lparr> ss_carrierServiceCode = (if truthy svc then the svc else extractServiceCodeFromVVD vvd),
                      carrierServiceName = (if truthy svc then the svc else extractServiceCodeFromVVD vvd),
                      vesselSchedules = vss \<rparr> # sss, k'')))"
  by (simp add: erasedServices_def erasedVessels_def eraseService_def Let_def
      split: sum.splits prod.splits)

lemma erasedServices_clock:
  "erasedServices (mapVoyages clk1 cmp svc groups k) = erasedServices (mapVoyages clk2 cmp svc groups k)"
proof (induction groups arbitrary: k)
  case Nil
  show ?case by (simp add: erasedServices_def)
next
  case (Cons g rest)
  obtain vvd items where g: "g = (vvd, items)" by (cases g)
  show ?case
    unfolding g erasedServices_step
    by (simp add: Cons.IH erasedVessels_clock[of clk1 _ _ _ _ clk2] split: sum.splits)
qed

lemma withoutReferences_mapper:
  "withoutReferences (mapHMMScheduleToDCSA clk cmp resp svc) =
     (case resultData resp of
        None \<Rightarrow> Inr []
      | Some items \<Rightarrow>
          if items = [] then Inr []
          else (case erasedServices (mapVoyages clk cmp svc
                        (groupBy (\<lambda>item. orDefault (vvdCode item) ''UNKNOWN'') items) 0) of
                  Inl e \<Rightarrow> Inl e
                | Inr (sss, k) \<Rightarrow> Inr sss))"
  by (simp add: withoutReferences_def mapHMMScheduleToDCSA_def erasedServices_def
      split: option.splits sum.splits prod.splits)

lemma withoutReferences_clock:
  "withoutReferences (mapHMMScheduleToDCSA clk1 cmp resp svc) =
   withoutReferences (mapHMMScheduleToDCSA clk2 cmp resp svc)"
  unfolding withoutReferences_mapper
  by (simp add: erasedServices_clock[of clk1 _ _ _ _ clk2] split: option.splits)

lemma join_nonempty: "x \<noteq> [] \<Longrightarrow> join sep (x # xs) \<noteq> []"
  by (cases xs) simp_all

lemma zim_reference_no_clock:
  "generateTransportCallReference_ZIM clk leg k =
     (join ''-'' (filter (\<lambda>s. s \<noteq> [])
                    [''ZIM'',
                     orDefault (departurePort leg) [],
                     orDefault (arrivalPort leg) [],
                     orDefault (orElse (voyage leg) (consortSailingNumber leg)) [],
                     orDefault (orElse (lloydsCode leg) (vesselCode leg)) []]), k)"
proof -
  have "join ''-'' (''ZIM'' # rest) \<noteq> []" for rest
    by (rule join_nonempty) simp
  then show ?thesis
    by (simp add: generateTransportCallReference_ZIM_def Let_def)
qed

text \<open>
  C4, as the claim states it: a mapper run twice on one payload returns identical
  output, the \<^verbatim>\<open>transportCallReference\<close> values included.  The HMM schedule mapper ends
  each reference with \<^verbatim>\<open>Date.now()\<close>; two runs on the payload of one port call, reading
  the clock values 1 and 2, return different outputs.
\<close>

theorem C4_hmm_mapper_depends_on_clock:
  "mapHMMScheduleToDCSA (\<lambda>k. 1) (\<lambda>a b. 0) (responseOf [callWithArrival]) None \<noteq>
   mapHMMScheduleToDCSA (\<lambda>k. 2) (\<lambda>a b. 0) (responseOf [callWithArrival]) None"
  by (simp add: hmm_eval)

text \<open>
  C4, amended.  A mapper's output is a function of the payload and of the clock
  readings taken while mapping.  For the HMM schedule mapper the output with the
  references blanked is the same for every clock; a reference of the HMM schedule and
  point-to-point mappers ends with the decimal clock reading, so two runs agree on it
  exactly when they read the same value; the ZIM mapper's reference is joined from
  the leg's fields and never reads the clock.
\<close>

theorem C4_mappers_deterministic_up_to_clock:
  "withoutReferences (mapHMMScheduleToDCSA clk1 localeCompare resp svc) =
     withoutReferences (mapHMMScheduleToDCSA clk2 localeCompare resp svc) \<and>
   (fst (generateTransportCallReference clk1 vvd port k) =
      fst (generateTransportCallReference clk2 vvd port k)) = (clk1 k = clk2 k) \<and>
   (fst (generateTransportCallReference_PTP clk1 routeMapNo port type_s k) =
      fst (generateTransportCallReference_PTP clk2 routeMapNo port type_s k)) = (clk1 k = clk2 k) \<and>
   generateTransportCallReference_ZIM clk1 leg k = generateTransportCallReference_ZIM clk2 leg k \<and>
   snd (generateTransportCallReference_ZIM clk1 leg k) = k"
proof -
  have a: "(fst (generateTransportCallReference clk1 vvd port k) =
      fst (generateTransportCallReference clk2 vvd port k)) = (clk1 k = clk2 k)"
    by (auto simp: generateTransportCallReference_def dest: showNat_inj)
  have b: "(fst (generateTransportCallReference_PTP clk1 routeMapNo port type_s k) =
      fst (generateTransportCallReference_PTP clk2 routeMapNo port type_s k)) = (clk1 k = clk2 k)"
    by (auto simp: generateTransportCallReference_PTP_def dest: showNat_inj)
  show ?thesis
    using withoutReferences_clock[of clk1 localeCompare resp svc clk2] a b
    by (simp add: zim_reference_no_clock)
qed

subsection \<open>Every item of the payload reaches the HMM mapper's output\<close>

text \<open>
  When the mapper returns, the timestamps of every item were converted, and an item
  with at least one timestamp is a transport call of the output, under the voyage and
  the vessel it was grouped by.
\<close>

lemma groupPush_member:
  "(\<exists>g. (k, g) \<in> set (groupPush k x m) \<and> x \<in> set g) \<and>
   (\<forall>k' g y. (k', g) \<in> set m \<and> y \<in> set g \<longrightarrow> (\<exists>g'. (k', g') \<in> set (groupPush k x m) \<and> y \<in> set g'))"
proof (induction m)
  case Nil
  show ?case by simp
next
  case (Cons p m)
  obtain k0 g0 where p: "p = (k0, g0)" by (cases p)
  show ?case
  proof (cases "k = k0")
    case True
    with p show ?thesis by auto
  next
    case False
    with p Cons show ?thesis by (auto; blast)
  qed
qed

lemma foldl_groupPush_keeps:
  "(k, g) \<in> set m \<Longrightarrow> y \<in> set g \<Longrightarrow>
   \<exists>g'. (k, g') \<in> set (foldl (\<lambda>m x. groupPush (key x) x m) m xs) \<and> y \<in> set g'"
proof (induction xs arbitrary: m g)
  case Nil
  then show ?case by auto
next
  case (Cons x xs)
  from groupPush_member[of "key x" x m] Cons.prems
  obtain g1 where "(k, g1) \<in> set (groupPush (key x) x m)" "y \<in> set g1" by blast
  from Cons.IH[OF this] show ?case by simp
qed

lemma groupBy_member:
  "x \<in> set xs \<Longrightarrow> \<exists>g. (key x, g) \<in> set (groupBy key xs) \<and> x \<in> set g"
proof -
  have "x \<in> set xs \<Longrightarrow> \<exists>g. (key x, g) \<in> set (foldl (\<lambda>m x. groupPush (key x) x m) m xs) \<and> x \<in> set g" for m
  proof (induction xs arbitrary: m)
    case Nil
    then show ?case by simp
  next
    case (Cons a xs)
    show ?case
    proof (cases "x = a")
      case True
      from groupPush_member[of "key a" a m]
      obtain g where "(key a, g) \<in> set (groupPush (key a) a m)" "a \<in> set g" by blast
      from foldl_groupPush_keeps[OF this, of key xs] True show ?thesis by simp
    next
      case False
      with Cons.prems have "x \<in> set xs" by simp
      from Cons.IH[OF this] show ?thesis by simp
    qed
  qed
  then show "x \<in> set xs \<Longrightarrow> ?thesis" by (simp add: groupBy_def)
qed

lemma set_insertBy: "set (insertBy cmp x xs) = insert x (set xs)"
  by (induction xs) auto

lemma set_sortBy: "set (sortBy cmp xs) = set xs"
  by (induction xs) (simp_all add: sortBy_def set_insertBy)

lemma mapSortedItems_member:
  "mapSortedItems clk vvd items k = Inr (calls, k') \<Longrightarrow> item \<in> set items \<Longrightarrow>
   \<exists>ts. itemTimestamps item = Inr ts \<and> (ts \<noteq> [] \<longrightarrow> (\<exists>tc \<in> set calls. timestamps tc = ts))"
proof (induction items arbitrary: k calls k')
  case Nil
  then show ?case by simp
next
  case (Cons a rest)
  from Cons.prems(1) obtain tsa where ta: "itemTimestamps a = Inr tsa"
    by (cases "itemTimestamps a") simp_all
  show ?case
  proof (cases "tsa = []")
    case True
    with ta Cons.prems(1) have r: "mapSortedItems clk vvd rest k = Inr (calls, k')"
      by simp
    show ?thesis
    proof (cases "item = a")
      case ia: True
      with ta True show ?thesis by simp
    next
      case False
      with Cons.prems(2) have "item \<in> set rest" by simp
      from Cons.IH[OF r this] show ?thesis .
    qed
  next
    case False
    with ta Cons.prems(1) obtain calls' where
      r: "mapSortedItems clk vvd rest (Suc k) = Inr (calls', k')" and
      c: "calls = \<lparr> transportCallReference = fst (generateTransportCallReference clk vvd (orDefault (item_portCode a) []) k),
                             carrierImportVoyageNumber = vvd,
                             carrierExportVoyageNumber = Some vvd,
                             location = \<lparr> loc_UNLocationCode = item_portCode a,
                                          locationName = portName a,
                                          loc_facilitySMDGCode = tmnlCode a \<rparr>,
                             timestamps = tsa \<rparr> # calls'"
      by (auto simp: generateTransportCallReference_def split: sum.splits prod.splits)
    show ?thesis
    proof (cases "item = a")
      case True
      with ta c show ?thesis by simp
    next
      case ne: False
      with Cons.prems(2) have "item \<in> set rest" by simp
      from Cons.IH[OF r this] c show ?thesis by auto
    qed
  qed
qed

lemma mapVessels_member:
  "mapVessels clk cmp vvd groups k = Inr (vss, k') \<Longrightarrow> (name, g) \<in> set groups \<Longrightarrow> item \<in> set g \<Longrightarrow>
   \<exists>ts. itemTimestamps item = Inr ts \<and>
     (ts \<noteq> [] \<longrightarrow> (\<exists>vs \<in> set vss. \<exists>calls. transportCalls vs = Some calls \<and>
                        (\<exists>tc \<in> set calls. timestamps tc = ts)))"
proof (induction groups arbitrary: k vss k')
  case Nil
  then show ?case by simp
next
  case (Cons p rest)
  obtain n0 g0 where p: "p = (n0, g0)" by (cases p)
  let ?sorted = "sortBy (\<lambda>a b. cmp (itemSortDate a) (itemSortDate b)) g0"
  from Cons.prems(1) p obtain calls k1 where s: "mapSortedItems clk vvd ?sorted k = Inr (calls, k1)"
    by (cases "mapSortedItems clk vvd ?sorted k") (auto simp: Let_def)
  with Cons.prems(1) p obtain vss' where r: "mapVessels clk cmp vvd rest k1 = Inr (vss', k')"
    and v: "vss = \<lparr> isDummyVessel = (n0 = ''UNKNOWN''),
                      vessel = (if n0 \<noteq> ''UNKNOWN''
                                then Some \<lparr> v_vesselIMONumber = ''0000000'', v_name = Some n0 \<rparr>
                                else None),
                      transportCalls = (if length calls > 0 then Some calls else None) \<rparr> # vss'"
    by (auto simp: Let_def split: sum.splits)
  show ?case
  proof (cases "(name, g) = p")
    case True
    with p Cons.prems(3) have "item \<in> set ?sorted" by (simp add: set_sortBy)
    from mapSortedItems_member[OF s this] obtain ts where
      ts: "itemTimestamps item = Inr ts" "ts \<noteq> [] \<longrightarrow> (\<exists>tc \<in> set calls. timestamps tc = ts)"
      by blast
    have "\<exists>vs \<in> set vss. \<exists>calls. transportCalls vs = Some calls \<and> (\<exists>tc \<in> set calls. timestamps tc = ts)"
      if "ts \<noteq> []"
    proof -
      from ts(2) that obtain tc where tc: "tc \<in> set calls" "timestamps tc = ts" by blast
      then have ne: "calls \<noteq> []" by auto
      let ?vs = "\<lparr> isDummyVessel = (n0 = ''UNKNOWN''),
                      vessel = (if n0 \<noteq> ''UNKNOWN''
                                then Some \<lparr> v_vesselIMONumber = ''0000000'', v_name = Some n0 \<rparr>
                                else None),
                      transportCalls = (if length calls > 0 then Some calls else None) \<rparr>"
      have m: "?vs \<in> set vss" using v by simp
      have c: "transportCalls ?vs = Some calls" using ne by simp
      from m c tc show ?thesis by blast
    qed
    with ts(1) show ?thesis by blast
  next
    case False
    with Cons.prems(2) have "(name, g) \<in> set rest" by simp
    from Cons.IH[OF r this Cons.prems(3)] obtain ts where
      t1: "itemTimestamps item = Inr ts" and
      t2: "ts \<noteq> [] \<longrightarrow> (\<exists>vs \<in> set vss'. \<exists>calls. transportCalls vs = Some calls \<and>
                        (\<exists>tc \<in> set calls. timestamps tc = ts))"
      by blast
    have sub: "set vss' \<subseteq> set vss" using v by auto
    from t2 sub have "ts \<noteq> [] \<longrightarrow> (\<exists>vs \<in> set vss. \<exists>calls. transportCalls vs = Some calls \<and>
                        (\<exists>tc \<in> set calls. timestamps tc = ts))"
      by blast
    with t1 show ?thesis by blast
  qed
qed

lemma mapVoyages_member:
  "mapVoyages clk cmp svc groups k = Inr (sss, k') \<Longrightarrow> (vvd, g) \<in> set groups \<Longrightarrow> item \<in> set g \<Longrightarrow>
   \<exists>ts. itemTimestamps item = Inr ts \<and>
     (ts \<noteq> [] \<longrightarrow> (\<exists>ss \<in> set sss. \<exists>vs \<in> set (vesselSchedules ss). \<exists>calls.
                        transportCalls vs = Some calls \<and> (\<exists>tc \<in> set calls. timestamps tc = ts)))"
proof (induction groups arbitrary: k sss k')
  case Nil
  then show ?case by simp
next
  case (Cons p rest)
  obtain v0 g0 where p: "p = (v0, g0)" by (cases p)
  let ?vm = "groupBy (\<lambda>item. orDefault (item_vesselName item) ''UNKNOWN'') g0"
  from Cons.prems(1) p obtain vss k1 where s: "mapVessels clk cmp v0 ?vm k = Inr (vss, k1)"
    by (cases "mapVessels clk cmp v0 ?vm k") (auto simp: Let_def)
  with Cons.prems(1) p obtain sss' where r: "mapVoyages clk cmp svc rest k1 = Inr (sss', k')"
    and v: "sss = \<lparr> ss_carrierServiceCode = (if truthy svc then the svc else extractServiceCodeFromVVD v0),
                      carrierServiceName = (if truthy svc then the svc else extractServiceCodeFromVVD v0),
                      vesselSchedules = vss \<rparr> # sss'"
    by (auto simp: Let_def split: sum.splits)
  show ?case
  proof (cases "(vvd, g) = p")
    case True
    with p Cons.prems(3) have "item \<in> set g0" by simp
    from groupBy_member[OF this, of "\<lambda>item. orDefault (item_vesselName item) ''UNKNOWN''"]
    obtain gv where gv: "(orDefault (item_vesselName item) ''UNKNOWN'', gv) \<in> set ?vm" "item \<in> set gv" by blast
    from mapVessels_member[OF s gv] obtain ts where
      t1: "itemTimestamps item = Inr ts" and
      t2: "ts \<noteq> [] \<longrightarrow> (\<exists>vs \<in> set vss. \<exists>calls. transportCalls vs = Some calls \<and>
                        (\<exists>tc \<in> set calls. timestamps tc = ts))"
      by blast
    let ?ss = "\<lparr> ss_carrierServiceCode = (if truthy svc then the svc else extractServiceCodeFromVVD v0),
                      carrierServiceName = (if truthy svc then the svc else extractServiceCodeFromVVD v0),
                      vesselSchedules = vss \<rparr>"
    have m: "?ss \<in> set sss" using v by simp
    have c: "vesselSchedules ?ss = vss" by simp
    from t2 m c have "ts \<noteq> [] \<longrightarrow> (\<exists>ss \<in> set sss. \<exists>vs \<in> set (vesselSchedules ss). \<exists>calls.
                        transportCalls vs = Some calls \<and> (\<exists>tc \<in> set calls. timestamps tc = ts))"
      by metis
    with t1 show ?thesis by blast
  next
    case False
    with Cons.prems(2) have "(vvd, g) \<in> set rest" by simp
    from Cons.IH[OF r this Cons.prems(3)] obtain ts where
      t1: "itemTimestamps item = Inr ts" and
      t2: "ts \<noteq> [] \<longrightarrow> (\<exists>ss \<in> set sss'. \<exists>vs \<in> set (vesselSchedules ss). \<exists>calls.
                        transportCalls vs = Some calls \<and> (\<exists>tc \<in> set calls. timestamps tc = ts))"
      by blast
    have sub: "set sss' \<subseteq> set sss" using v by auto
    from t2 sub have "ts \<noteq> [] \<longrightarrow> (\<exists>ss \<in> set sss. \<exists>vs \<in> set (vesselSchedules ss). \<exists>calls.
                        transportCalls vs = Some calls \<and> (\<exists>tc \<in> set calls. timestamps tc = ts))"
      by blast
    with t1 show ?thesis by blast
  qed
qed

lemma mapHMMScheduleToDCSA_member:
  "mapHMMScheduleToDCSA clk cmp resp svc = Inr out \<Longrightarrow> resultData resp = Some items \<Longrightarrow>
   item \<in> set items \<Longrightarrow>
   \<exists>ts. itemTimestamps item = Inr ts \<and>
     (ts \<noteq> [] \<longrightarrow> (\<exists>ss \<in> set out. \<exists>vs \<in> set (vesselSchedules ss). \<exists>calls.
                        transportCalls vs = Some calls \<and> (\<exists>tc \<in> set calls. timestamps tc = ts)))"
proof -
  assume m: "mapHMMScheduleToDCSA clk cmp resp svc = Inr out" and rd: "resultData resp = Some items"
    and it: "item \<in> set items"
  let ?vm = "groupBy (\<lambda>item. orDefault (vvdCode item) ''UNKNOWN'') items"
  from it have ne: "items \<noteq> []" by auto
  from m rd ne obtain k' where v: "mapVoyages clk cmp svc ?vm 0 = Inr (out, k')"
    by (auto simp: mapHMMScheduleToDCSA_def Let_def split: sum.splits)
  from groupBy_member[OF it, of "\<lambda>item. orDefault (vvdCode item) ''UNKNOWN''"]
  obtain g where g: "(orDefault (vvdCode item) ''UNKNOWN'', g) \<in> set ?vm" "item \<in> set g" by blast
  from mapVoyages_member[OF v g] show ?thesis .
qed

subsection \<open>The HMM date and time conversion\<close>

text \<open>
  What the two helpers compute.  \<^verbatim>\<open>convertHMMDateTime\<close> cuts a date of eight
  characters and a time of four at fixed positions, and throws on any other length;
  \<^verbatim>\<open>normalizeDateTime\<close> passes a text containing \<^verbatim>\<open>T\<close> through, with \<^verbatim>\<open>Z\<close> appended
  unless it ends with \<^verbatim>\<open>Z\<close>.
\<close>

lemma convertHMMDateTime_cuts:
  "length d = 8 \<Longrightarrow> length t = 4 \<Longrightarrow>
   convertHMMDateTime d t =
     Inr (take 4 d @ ''-'' @ take 2 (drop 4 d) @ ''-'' @ drop 6 d @ ''T'' @
          take 2 t @ '':'' @ drop 2 t @ '':00Z'')"
  by (auto simp: convertHMMDateTime_def substring_def)

lemma convertHMMDateTime_wrong_length:
  "length d \<noteq> 8 \<or> length t \<noteq> 4 \<Longrightarrow> \<exists>m. convertHMMDateTime d t = Inl (Error m)"
  by (auto simp: convertHMMDateTime_def)

lemma normalizeDateTime_with_T:
  "includes_str s ''T'' \<Longrightarrow>
   normalizeDateTime toISO s = Inr (if endsWith s ''Z'' then s else s @ ''Z'')"
  by (cases s) (auto simp: normalizeDateTime_def)

text \<open>
  The example of the design: an item whose arrival is \<^verbatim>\<open>20210817\<close>, \<^verbatim>\<open>2100\<close> gets the
  arrival timestamp \<^verbatim>\<open>2021-08-17T21:00:00Z\<close> with event type ARRI, first among its
  timestamps, and whenever the mapper returns, a transport call of its output carries
  these timestamps.
\<close>

lemma arrival_20210817_2100_mapped:
  assumes ar: "arrival item = Some ar" "arrivalDate ar = Some ''20210817''"
    "arrivalTime ar = Some ''2100''"
    and m: "resultData resp = Some items" "item \<in> set items"
    "mapHMMScheduleToDCSA clk localeCompare resp svc = Inr out"
  shows "\<exists>ss \<in> set out. \<exists>vs \<in> set (vesselSchedules ss). \<exists>calls.
           transportCalls vs = Some calls \<and>
           (\<exists>tc \<in> set calls.
              timestamps tc \<noteq> [] \<and>
              hd (timestamps tc) =
                \<lparr> eventTypeCode = ARRI,
                  eventClassifierCode = mapStatusCodeToClassifier (arrivalStatusCode ar),
                  eventDateTime = ''2021-08-17T21:00:00Z'' \<rparr>)"
proof -
  let ?A = "\<lparr> eventTypeCode = ARRI,
              eventClassifierCode = mapStatusCodeToClassifier (arrivalStatusCode ar),
              eventDateTime = ''2021-08-17T21:00:00Z'' \<rparr>"
  have c: "arrivalTimestamps item = Inr [?A]"
    using ar by (simp add: arrivalTimestamps_def truthy_def convertHMMDateTime_def substring_def)
  from mapHMMScheduleToDCSA_member[OF m(3) m(1) m(2)] obtain ts where
    t1: "itemTimestamps item = Inr ts" and
    t2: "ts \<noteq> [] \<longrightarrow> (\<exists>ss \<in> set out. \<exists>vs \<in> set (vesselSchedules ss). \<exists>calls.
                      transportCalls vs = Some calls \<and> (\<exists>tc \<in> set calls. timestamps tc = ts))"
    by blast
  from t1 c have t3: "ts \<noteq> [] \<and> hd ts = ?A"
    by (auto simp: itemTimestamps_def split: sum.splits)
  from t2 t3 obtain ss vs calls tc where
    "ss \<in> set out" "vs \<in> set (vesselSchedules ss)" "transportCalls vs = Some calls"
    "tc \<in> set calls" "timestamps tc = ts"
    by blast
  with t3 show ?thesis by blast
qed

text \<open>The example evaluated on a payload of one port call, for every clock and collation.\<close>

lemma arrival_example_evaluated:
  "mapHMMScheduleToDCSA clk localeCompare (responseOf [callWithArrival]) None =
     Inr [\<lparr> ss_carrierServiceCode = ''ABCD'', carrierServiceName = ''ABCD'',
            vesselSchedules =
              [\<lparr> isDummyVessel = False,
                 vessel = Some \<lparr> v_vesselIMONumber = ''0000000'', v_name = Some ''HMM ALGECIRAS'' \<rparr>,
                 transportCalls =
                   Some [\<lparr> transportCallReference = ''HMM-ABCD0001E-KRPUS-'' @ showNat (clk 0),
                           carrierImportVoyageNumber = ''ABCD0001E'',
                           carrierExportVoyageNumber = Some ''ABCD0001E'',
                           location = \<lparr> loc_UNLocationCode = Some ''KRPUS'',
                                        locationName = Some ''BUSAN'',
                                        loc_facilitySMDGCode = None \<rparr>,
                           timestamps =
                             [\<lparr> eventTypeCode = ARRI, eventClassifierCode = ACT,
                                eventDateTime = ''2021-08-17T21:00:00Z'' \<rparr>] \<rparr>] \<rparr>] \<rparr>]"
  by (simp add: hmm_eval del: showNat.simps)

text \<open>
  C5.  The claim asks that an unparsable date or time raises a hard error instead of
  being dropped or defaulted, and that a datetime containing \<^verbatim>\<open>T\<close> gets a \<^verbatim>\<open>Z\<close> only
  when it carries no offset.  The code does neither.  \<^verbatim>\<open>convertHMMDateTime\<close> checks the
  two lengths only: the date \<^verbatim>\<open>2021AB17\<close> is converted to \<^verbatim>\<open>2021-AB-17T21:00:00Z\<close>, and
  the mapper returns a transport call with that timestamp.  An arrival whose time is
  the empty text never reaches the conversion: the mapper drops the timestamp, and
  with it the port call, without an error.  \<^verbatim>\<open>normalizeDateTime\<close> tests the last
  character only, and appends \<^verbatim>\<open>Z\<close> to a datetime that ends with the offset \<^verbatim>\<open>+09:00\<close>.
\<close>

theorem C5_unparsable_date_converted_and_offset_suffixed:
  "convertHMMDateTime ''2021AB17'' ''2100'' = Inr ''2021-AB-17T21:00:00Z'' \<and>
   mapHMMScheduleToDCSA clk localeCompare (responseOf [callWithBadDate]) None =
     Inr [\<lparr> ss_carrierServiceCode = ''ABCD'', carrierServiceName = ''ABCD'',
            vesselSchedules =
              [\<lparr> isDummyVessel = False,
                 vessel = Some \<lparr> v_vesselIMONumber = ''0000000'', v_name = Some ''HMM ALGECIRAS'' \<rparr>,
                 transportCalls =
                   Some [\<lparr> transportCallReference = ''HMM-ABCD0001E-KRPUS-'' @ showNat (clk 0),
                           carrierImportVoyageNumber = ''ABCD0001E'',
                           carrierExportVoyageNumber = Some ''ABCD0001E'',
                           location = \<lparr> loc_UNLocationCode = Some ''KRPUS'',
                                        locationName = Some ''BUSAN'',
                                        loc_facilitySMDGCode = None \<rparr>,
                           timestamps =
                             [\<lparr> eventTypeCode = ARRI, eventClassifierCode = ACT,
                                eventDateTime = ''2021-AB-17T21:00:00Z'' \<rparr>] \<rparr>] \<rparr>] \<rparr>] \<and>
   mapHMMScheduleToDCSA clk localeCompare (responseOf [callWithEmptyTime]) None =
     Inr [\<lparr> ss_carrierServiceCode = ''ABCD'', carrierServiceName = ''ABCD'',
            vesselSchedules =
              [\<lparr> isDummyVessel = False,
                 vessel = Some \<lparr> v_vesselIMONumber = ''0000000'', v_name = Some ''HMM ALGECIRAS'' \<rparr>,
                 transportCalls = None \<rparr>] \<rparr>] \<and>
   normalizeDateTime toISO ''2021-12-03T14:49:00+09:00'' = Inr ''2021-12-03T14:49:00+09:00Z''"
proof -
  have a: "convertHMMDateTime ''2021AB17'' ''2100'' = Inr ''2021-AB-17T21:00:00Z''"
    by (simp add: convertHMMDateTime_def substring_def)
  have b: "mapHMMScheduleToDCSA clk localeCompare (responseOf [callWithBadDate]) None =
     Inr [\<lparr> ss_carrierServiceCode = ''ABCD'', carrierServiceName = ''ABCD'',
            vesselSchedules =
              [\<lparr> isDummyVessel = False,
                 vessel = Some \<lparr> v_vesselIMONumber = ''0000000'', v_name = Some ''HMM ALGECIRAS'' \<rparr>,
                 transportCalls =
                   Some [\<lparr> transportCallReference = ''HMM-ABCD0001E-KRPUS-'' @ showNat (clk 0),
                           carrierImportVoyageNumber = ''ABCD0001E'',
                           carrierExportVoyageNumber = Some ''ABCD0001E'',
                           location = \<lparr> loc_UNLocationCode = Some ''KRPUS'',
                                        locationName = Some ''BUSAN'',
                                        loc_facilitySMDGCode = None \<rparr>,
                           timestamps =
                             [\<lparr> eventTypeCode = ARRI, eventClassifierCode = ACT,
                                eventDateTime = ''2021-AB-17T21:00:00Z'' \<rparr>] \<rparr>] \<rparr>] \<rparr>]"
    by (simp add: hmm_eval callWithBadDate_def del: showNat.simps)
  have c: "mapHMMScheduleToDCSA clk localeCompare (responseOf [callWithEmptyTime]) None =
     Inr [\<lparr> ss_carrierServiceCode = ''ABCD'', carrierServiceName = ''ABCD'',
            vesselSchedules =
              [\<lparr> isDummyVessel = False,
                 vessel = Some \<lparr> v_vesselIMONumber = ''0000000'', v_name = Some ''HMM ALGECIRAS'' \<rparr>,
                 transportCalls = None \<rparr>] \<rparr>]"
    by (simp add: hmm_eval callWithEmptyTime_def del: showNat.simps)
  have d: "normalizeDateTime toISO ''2021-12-03T14:49:00+09:00'' = Inr ''2021-12-03T14:49:00+09:00Z''"
    by (simp add: normalizeDateTime_def endsWith_def)
  from a b c d show ?thesis by simp
qed

subsection \<open>Sub-API adapters\<close>

text \<open>
  The Maersk date guard.  A supplied date that the guard finds outside its window
  raises the range error and no request is made; the start date is checked first.
\<close>

lemma Maersk_start_outside:
  "configuredEndpoint api = Some ep \<Longrightarrow> startDate params = Some s \<Longrightarrow> s \<noteq> [] \<Longrightarrow>
   outsideWindow h 0 s \<Longrightarrow>
   MaerskScheduleAdapter_getSchedule api h http params =
     ([], Inl (Error (rangeMessage h 0 ''Start'' s)))"
  by (simp add: MaerskScheduleAdapter_getSchedule_def truthy_def)

lemma Maersk_end_outside:
  "configuredEndpoint api = Some ep \<Longrightarrow>
   \<not> (truthy (startDate params) \<and> outsideWindow h 0 (the (startDate params))) \<Longrightarrow>
   k = (if truthy (startDate params) then 1 else 0) \<Longrightarrow>
   endDate params = Some e \<Longrightarrow> e \<noteq> [] \<Longrightarrow> outsideWindow h k e \<Longrightarrow>
   MaerskScheduleAdapter_getSchedule api h http params =
     ([], Inl (Error (rangeMessage h k ''End'' e)))"
  by (auto simp: MaerskScheduleAdapter_getSchedule_def truthy_def Let_def)

lemma Maersk_inside:
  "configuredEndpoint api = Some ep \<Longrightarrow>
   \<not> (truthy (startDate params) \<and> outsideWindow h 0 (the (startDate params))) \<Longrightarrow>
   k = (if truthy (startDate params) then 1 else 0) \<Longrightarrow>
   \<not> (truthy (endDate params) \<and> outsideWindow h k (the (endDate params))) \<Longrightarrow>
   \<exists>req. url req = ep \<and> httpMethod req = ''GET'' \<and>
     MaerskScheduleAdapter_getSchedule api h http params =
       ([req],
        case http req of
          Inr response \<Rightarrow> Inr response
        | Inl (AxiosError m (Some r)) \<Rightarrow>
            Inl (Error (''Maersk Schedule API error: '' @ showNat (status r) @ '' '' @
                        statusText r @ '' - '' @ dataJson r))
        | Inl e \<Rightarrow> Inl e)"
  by (auto simp: MaerskScheduleAdapter_getSchedule_def Let_def)

text \<open>
  The guard compares local calendar days: the local day of the supplied instant with
  the local day of the clock's reading.
\<close>

lemma setHours0_localDay: "setHours0 h t = localDay h t * msPerDay - utcOffset h"
  by (simp add: setHours0_def localDay_def)

lemma outsideWindow_days:
  assumes "newDate h s = Some t"
  shows "outsideWindow h k s =
           (localDay h t < localDay h (now h k) - 90 \<or> localDay h t > localDay h (now h k) + 180)"
proof -
  have lt: "a * msPerDay - c < b * msPerDay - c + n * msPerDay \<longleftrightarrow> a < b + n" for a b c n :: int
    unfolding msPerDay_def by arith
  have gt: "a * msPerDay - c > b * msPerDay - c + n * msPerDay \<longleftrightarrow> a > b + n" for a b c n :: int
    unfolding msPerDay_def by arith
  show ?thesis
    using assms lt[of "localDay h t" "utcOffset h" "localDay h (now h k)" "- 90"]
      gt[of "localDay h (now h k)" "utcOffset h" "180" "localDay h t"]
    by (simp add: outsideWindow_def minDate_def maxDate_def addDays_def setHours0_localDay)
qed

text \<open>
  A date-only text denotes a UTC midnight.  On a host on or east of UTC its local day is
  the day written; on a host west of UTC it is the day before.
\<close>

lemma parseDateOnly_midnight: "parseDateOnly s = Some t \<Longrightarrow> \<exists>D. t = D * msPerDay"
  by (auto simp: parseDateOnly_def split: if_splits option.splits)

lemma localDay_east:
  "0 \<le> utcOffset h \<Longrightarrow> utcOffset h < msPerDay \<Longrightarrow> localDay h (D * msPerDay) = D"
  by (simp add: localDay_def msPerDay_def)

lemma localDay_west:
  assumes "- msPerDay \<le> utcOffset h" "utcOffset h < 0"
  shows "localDay h (D * msPerDay) = D - 1"
proof -
  have "D * msPerDay + utcOffset h = (utcOffset h + msPerDay) + (D - 1) * msPerDay"
    by (simp add: algebra_simps)
  then have "localDay h (D * msPerDay) = (utcOffset h + msPerDay) div msPerDay + (D - 1)"
    unfolding localDay_def using div_mult_self1[of msPerDay "utcOffset h + msPerDay" "D - 1"]
    by (simp add: msPerDay_def)
  moreover have "(utcOffset h + msPerDay) div msPerDay = 0"
    using assms by (simp add: msPerDay_def)
  ultimately show ?thesis by simp
qed

text \<open>
  So for a date-only text that names day \<^verbatim>\<open>D\<close>, the guard of a host on or east of UTC
  is the window of the design, from 90 days before today to 180 days after it, and
  the guard of a host west of UTC is that window moved by one day: it rejects the day
  90 days before today and lets the day 181 days after today through.
\<close>

lemma guard_on_or_east_of_UTC:
  assumes "parseDateOnly s = Some (D * msPerDay)" "0 \<le> utcOffset h" "utcOffset h < msPerDay"
  shows "outsideWindow h k s =
           (D < localDay h (now h k) - 90 \<or> D > localDay h (now h k) + 180)"
proof -
  have "newDate h s = Some (D * msPerDay)"
    using assms(1) by (simp add: newDate_def)
  from outsideWindow_days[OF this] localDay_east[OF assms(2,3)] show ?thesis by simp
qed

lemma guard_west_of_UTC:
  assumes "parseDateOnly s = Some (D * msPerDay)" "- msPerDay \<le> utcOffset h" "utcOffset h < 0"
  shows "outsideWindow h k s =
           (D < localDay h (now h k) - 89 \<or> D > localDay h (now h k) + 181)"
proof -
  have "newDate h s = Some (D * msPerDay)"
    using assms(1) by (simp add: newDate_def)
  from outsideWindow_days[OF this, of k] localDay_west[OF assms(2,3), of D] show ?thesis by auto
qed

text \<open>The guard evaluated on the sample hosts.\<close>

lemma days_eval:
  "daysFromCivil 2026 8 3 = 20668" "daysFromCivil 2026 8 4 = 20669" "daysFromCivil 2026 8 5 = 20670"
  "daysFromCivil 2027 5 1 = 20939" "daysFromCivil 2027 5 2 = 20940"
  unfolding daysFromCivil_def Let_def by simp_all

lemma parse_eval:
  "parseDateOnly ''2026-08-03'' = Some 1785715200000"
  "parseDateOnly ''2026-08-04'' = Some 1785801600000"
  "parseDateOnly ''2026-08-05'' = Some 1785888000000"
  "parseDateOnly ''2027-05-01'' = Some 1809129600000"
  "parseDateOnly ''2027-05-02'' = Some 1809216000000"
  by (simp_all add: parseDateOnly_def digitValue_def daysInMonth_def days_eval msPerDay_def)

lemma civil_eval:
  "civilFromDays 20668 = (2026, 8, 3)" "civilFromDays 20669 = (2026, 8, 4)"
  "civilFromDays 20938 = (2027, 4, 30)" "civilFromDays 20939 = (2027, 5, 1)"
  unfolding civilFromDays_def Let_def by simp_all

lemma off_eval:
  "utcOffset westHost = - 25200000" "utcOffset utcHost = 0" "utcOffset eastHost = 32400000"
  by (simp_all add: westHost_def utcHost_def eastHost_def)

lemma window_west: "minDate westHost k = 1785826800000" "maxDate westHost k = 1809154800000"
  by (simp_all add: minDate_def maxDate_def addDays_def setHours0_def msPerDay_def westHost_def)

lemma window_utc: "minDate utcHost k = 1785801600000" "maxDate utcHost k = 1809129600000"
  by (simp_all add: minDate_def maxDate_def addDays_def setHours0_def msPerDay_def utcHost_def)

lemma window_east: "minDate eastHost k = 1785769200000" "maxDate eastHost k = 1809097200000"
  by (simp_all add: minDate_def maxDate_def addDays_def setHours0_def msPerDay_def eastHost_def)

lemma iso_eval:
  "isoDate 1785826800000 = ''2026-08-04''" "isoDate 1809154800000 = ''2027-05-01''"
  "isoDate 1785801600000 = ''2026-08-04''" "isoDate 1809129600000 = ''2027-05-01''"
  "isoDate 1785769200000 = ''2026-08-03''" "isoDate 1809097200000 = ''2027-04-30''"
  by (simp_all add: isoDate_def msPerDay_def civil_eval padStart_def showNat.simps digitChar_def)

lemma out_west:
  "outsideWindow westHost k ''2026-08-03''" "outsideWindow westHost k ''2026-08-04''"
  "\<not> outsideWindow westHost k ''2026-08-05''" "\<not> outsideWindow westHost k ''2027-05-01''"
  "\<not> outsideWindow westHost k ''2027-05-02''"
  by (simp_all add: outsideWindow_def newDate_def parse_eval window_west setHours0_def
      msPerDay_def off_eval)

lemma out_utc:
  "outsideWindow utcHost k ''2026-08-03''" "\<not> outsideWindow utcHost k ''2026-08-04''"
  "\<not> outsideWindow utcHost k ''2026-08-05''" "\<not> outsideWindow utcHost k ''2027-05-01''"
  "outsideWindow utcHost k ''2027-05-02''"
  by (simp_all add: outsideWindow_def newDate_def parse_eval window_utc setHours0_def
      msPerDay_def off_eval)

lemma out_east:
  "outsideWindow eastHost k ''2026-08-03''" "\<not> outsideWindow eastHost k ''2026-08-04''"
  "\<not> outsideWindow eastHost k ''2027-05-01''" "outsideWindow eastHost k ''2027-05-02''"
  by (simp_all add: outsideWindow_def newDate_def parse_eval window_east setHours0_def
      msPerDay_def off_eval)

lemmas maersk_eval =
  MaerskScheduleAdapter_getSchedule_def configuredEndpoint_def truthy_def noParams_def addIf_def
  scheduleApi_def majorVersion_def noVendor_def rangeMessage_def iso_eval Let_def

text \<open>
  C6.  The claim asks that a \<^verbatim>\<open>startDate\<close> of today \<^verbatim>\<open>-\<close> 90 days, the first day of the
  window, raises no range error, and that any date outside the window does.  The
  guard compares local midnights, but a date-only text denotes a UTC midnight, which
  on a host west of UTC falls on the evening of the day before.  On such a host, on
  2026-11-02, the \<^verbatim>\<open>startDate\<close> 2026-08-04 (today \<^verbatim>\<open>-\<close> 90 days) is answered by the
  range error, whose own text gives 2026-08-04 as the first valid day, and no request
  is made; and the \<^verbatim>\<open>startDate\<close> 2027-05-02 (today \<^verbatim>\<open>+\<close> 181 days) raises no error:
  the request goes out.  The day before the window (2026-08-03) is rejected and the
  day after its first (2026-08-05) is let through, as the claim says.  On a host on
  UTC, at the same instant, 2026-08-04 is let through and 2027-05-02 is rejected.
\<close>

theorem C6_maersk_window_shifted_west_of_UTC:
  "MaerskScheduleAdapter_getSchedule scheduleApi westHost noVendor
     (noParams\<lparr>startDate := Some ''2026-08-04''\<rparr>) =
     ([], Inl (Error (''Maersk Vessel Schedule API: Start Date must be within 90 days past '' @
                      ''and 180 days future from today. Received: 2026-08-04, '' @
                      ''Valid range: 2026-08-04 to 2027-05-01''))) \<and>
   MaerskScheduleAdapter_getSchedule scheduleApi westHost noVendor
     (noParams\<lparr>startDate := Some ''2027-05-02''\<rparr>) =
     ([\<lparr> httpMethod = ''GET'', url = ''/schedules/vessel-schedules'',
          queryParams = [(''startDate'', ''2027-05-02'')],
          requestHeaders = [(''API-Version'', ''1'')], requestBody = None \<rparr>],
      Inl (AxiosError ''Network Error'' None)) \<and>
   MaerskScheduleAdapter_getSchedule scheduleApi westHost noVendor
     (noParams\<lparr>startDate := Some ''2026-08-03''\<rparr>) =
     ([], Inl (Error (''Maersk Vessel Schedule API: Start Date must be within 90 days past '' @
                      ''and 180 days future from today. Received: 2026-08-03, '' @
                      ''Valid range: 2026-08-04 to 2027-05-01''))) \<and>
   MaerskScheduleAdapter_getSchedule scheduleApi westHost noVendor
     (noParams\<lparr>startDate := Some ''2026-08-05''\<rparr>) =
     ([\<lparr> httpMethod = ''GET'', url = ''/schedules/vessel-schedules'',
          queryParams = [(''startDate'', ''2026-08-05'')],
          requestHeaders = [(''API-Version'', ''1'')], requestBody = None \<rparr>],
      Inl (AxiosError ''Network Error'' None)) \<and>
   MaerskScheduleAdapter_getSchedule scheduleApi utcHost noVendor
     (noParams\<lparr>startDate := Some ''2026-08-04''\<rparr>) =
     ([\<lparr> httpMethod = ''GET'', url = ''/schedules/vessel-schedules'',
          queryParams = [(''startDate'', ''2026-08-04'')],
          requestHeaders = [(''API-Version'', ''1'')], requestBody = None \<rparr>],
      Inl (AxiosError ''Network Error'' None)) \<and>
   MaerskScheduleAdapter_getSchedule scheduleApi utcHost noVendor
     (noParams\<lparr>startDate := Some ''2027-05-02''\<rparr>) =
     ([], Inl (Error (''Maersk Vessel Schedule API: Start Date must be within 90 days past '' @
                      ''and 180 days future from today. Received: 2027-05-02, '' @
                      ''Valid range: 2026-08-04 to 2027-05-01'')))"
proof -
  have a: "MaerskScheduleAdapter_getSchedule scheduleApi westHost noVendor
     (noParams\<lparr>startDate := Some ''2026-08-04''\<rparr>) =
     ([], Inl (Error (''Maersk Vessel Schedule API: Start Date must be within 90 days past '' @
                      ''and 180 days future from today. Received: 2026-08-04, '' @
                      ''Valid range: 2026-08-04 to 2027-05-01'')))"
    by (simp add: maersk_eval out_west window_west)
  have b: "MaerskScheduleAdapter_getSchedule scheduleApi westHost noVendor
     (noParams\<lparr>startDate := Some ''2027-05-02''\<rparr>) =
     ([\<lparr> httpMethod = ''GET'', url = ''/schedules/vessel-schedules'',
          queryParams = [(''startDate'', ''2027-05-02'')],
          requestHeaders = [(''API-Version'', ''1'')], requestBody = None \<rparr>],
      Inl (AxiosError ''Network Error'' None))"
    by (simp add: maersk_eval out_west window_west)
  have c: "MaerskScheduleAdapter_getSchedule scheduleApi westHost noVendor
     (noParams\<lparr>startDate := Some ''2026-08-03''\<rparr>) =
     ([], Inl (Error (''Maersk Vessel Schedule API: Start Date must be within 90 days past '' @
                      ''and 180 days future from today. Received: 2026-08-03, '' @
                      ''Valid range: 2026-08-04 to 2027-05-01'')))"
    by (simp add: maersk_eval out_west window_west)
  have d: "MaerskScheduleAdapter_getSchedule scheduleApi westHost noVendor
     (noParams\<lparr>startDate := Some ''2026-08-05''\<rparr>) =
     ([\<lparr> httpMethod = ''GET'', url = ''/schedules/vessel-schedules'',
          queryParams = [(''startDate'', ''2026-08-05'')],
          requestHeaders = [(''API-Version'', ''1'')], requestBody = None \<rparr>],
      Inl (AxiosError ''Network Error'' None))"
    by (simp add: maersk_eval out_west window_west)
  have e: "MaerskScheduleAdapter_getSchedule scheduleApi utcHost noVendor
     (noParams\<lparr>startDate := Some ''2026-08-04''\<rparr>) =
     ([\<lparr> httpMethod = ''GET'', url = ''/schedules/vessel-schedules'',
          queryParams = [(''startDate'', ''2026-08-04'')],
          requestHeaders = [(''API-Version'', ''1'')], requestBody = None \<rparr>],
      Inl (AxiosError ''Network Error'' None))"
    by (simp add: maersk_eval out_utc window_utc)
  have f: "MaerskScheduleAdapter_getSchedule scheduleApi utcHost noVendor
     (noParams\<lparr>startDate := Some ''2027-05-02''\<rparr>) =
     ([], Inl (Error (''Maersk Vessel Schedule API: Start Date must be within 90 days past '' @
                      ''and 180 days future from today. Received: 2027-05-02, '' @
                      ''Valid range: 2026-08-04 to 2027-05-01'')))"
    by (simp add: maersk_eval out_utc window_utc)
  from a b c d e f show ?thesis by simp
qed

text \<open>
  C7.  When \<^verbatim>\<open>carrierVoyageNumber\<close> is absent, the point-to-point triple is not fully
  present and the port schedule triple is not fully present, the HMM router hands the
  query to the vessel schedule adapter, whatever the adapters are; with the schedule
  endpoint configured that adapter throws the error naming \<^verbatim>\<open>carrierVoyageNumber\<close>
  (\<^verbatim>\<open>vvdCode\<close>) and no request is made.
\<close>

theorem C7_hmm_fallback_then_fail:
  "\<not> truthy (carrierVoyageNumber params) \<Longrightarrow>
   \<not> (truthy (fromLocationCode params) \<and> truthy (toLocationCode params) \<and>
      truthy (periodDate params)) \<Longrightarrow>
   \<not> (truthy (UNLocationCode params) \<and> truthy (startDate params) \<and> truthy (endDate params)) \<Longrightarrow>
   configuredEndpoint api = Some ep \<Longrightarrow>
   HMMAdapter_getSchedule vesselAdapter ptpAdapter portAdapter params = vesselAdapter params \<and>
   HMMAdapter_getSchedule (HMMScheduleAdapter_getSchedule api clk localeCompare http)
       ptpScheduleAdapter portScheduleAdapter params =
     ([], Inl (Error ''HMM Schedule API requires carrierVoyageNumber (vvdCode) parameter''))"
proof -
  assume v: "\<not> truthy (carrierVoyageNumber params)"
    and p: "\<not> (truthy (fromLocationCode params) \<and> truthy (toLocationCode params) \<and>
      truthy (periodDate params))"
    and q: "\<not> (truthy (UNLocationCode params) \<and> truthy (startDate params) \<and> truthy (endDate params))"
    and ep: "configuredEndpoint api = Some ep"
  have route: "HMMAdapter_getSchedule f g h params = f params" for f g h :: "ScheduleQueryParams \<Rightarrow> 'x"
    unfolding HMMAdapter_getSchedule_def using v p q by (simp only: if_False)
  have fail: "HMMScheduleAdapter_getSchedule api clk localeCompare http params =
     ([], Inl (Error ''HMM Schedule API requires carrierVoyageNumber (vvdCode) parameter''))"
    using v ep by (simp add: HMMScheduleAdapter_getSchedule_def)
  show ?thesis
    by (simp only: route fail)
qed

theorem C7_hmm_fallback_then_fail_witness:
  "\<not> truthy (carrierVoyageNumber (noParams\<lparr>fromLocationCode := Some ''KRPUS'', startDate := Some ''2026-11-02''\<rparr>)) \<and>
   HMMAdapter_getSchedule (\<lambda>p. ''vessel'') (\<lambda>p. ''ptp'') (\<lambda>p. ''port'')
       (noParams\<lparr>fromLocationCode := Some ''KRPUS'', startDate := Some ''2026-11-02''\<rparr>) = ''vessel'' \<and>
   HMMAdapter_getSchedule (HMMScheduleAdapter_getSchedule scheduleApi (\<lambda>k. 0) (\<lambda>a b. 0) noVendor)
       (\<lambda>p. ([], Inr [])) (\<lambda>p. ([], Inr []))
       (noParams\<lparr>fromLocationCode := Some ''KRPUS'', startDate := Some ''2026-11-02''\<rparr>) =
     ([], Inl (Error ''HMM Schedule API requires carrierVoyageNumber (vvdCode) parameter''))"
proof -
  let ?p = "noParams\<lparr>fromLocationCode := Some ''KRPUS'', startDate := Some ''2026-11-02''\<rparr>"
  have ep: "configuredEndpoint scheduleApi = Some ''/schedules/vessel-schedules''"
    by (simp add: configuredEndpoint_def scheduleApi_def)
  have h1: "\<not> truthy (carrierVoyageNumber ?p)"
    by (simp add: noParams_def truthy_def)
  have h2: "\<not> (truthy (fromLocationCode ?p) \<and> truthy (toLocationCode ?p) \<and> truthy (periodDate ?p))"
    by (simp add: noParams_def truthy_def)
  have h3: "\<not> (truthy (UNLocationCode ?p) \<and> truthy (startDate ?p) \<and> truthy (endDate ?p))"
    by (simp add: noParams_def truthy_def)
  show ?thesis
    using h1 C7_hmm_fallback_then_fail[OF h1 h2 h3 ep,
        where vesselAdapter = "\<lambda>p. ''vessel''" and ptpAdapter = "\<lambda>p. ''ptp''" and portAdapter = "\<lambda>p. ''port''"
        and clk = "\<lambda>k. 0" and localeCompare = "\<lambda>a b. 0" and http = noVendor
        and ptpScheduleAdapter = "\<lambda>p. ([], Inr [])" and portScheduleAdapter = "\<lambda>p. ([], Inr [])"]
    by simp
qed

text \<open>
  C8.  ZIM has one schedule adapter, and the claim asks for a missing-parameter
  error, before any request, when origin and destination are absent.  The parameter
  bag has no origin or destination field at all, and the adapter throws only when
  \<^verbatim>\<open>UNLocationCode\<close> is present: for the empty bag, with the endpoint configured, it
  sends the request without origin and destination and returns the mapped answer.
\<close>

theorem C8_zim_empty_query_reaches_vendor:
  "ZIMAdapter_getSchedule
     (ZIMScheduleAdapter_getSchedule scheduleApi mapper (\<lambda>req. Inr response)) noParams =
     ([\<lparr> httpMethod = ''GET'', url = ''/schedules/vessel-schedules'',
         queryParams = [(''sortByDepartureOrArrival'', ''Departure'')],
         requestHeaders = [], requestBody = None \<rparr>],
      Inr (mapper response))"
  by (simp add: ZIMAdapter_getSchedule_def ZIMScheduleAdapter_getSchedule_def
      configuredEndpoint_def scheduleApi_def noParams_def truthy_def addIf_def)

subsection \<open>Credential manager\<close>














text \<open>
  C10.  For an OAuth2 carrier, \<^verbatim>\<open>getAuthHeaders\<close> throws exactly when obtaining the
  token throws: the lookup of the supplementary API key never fails the call.  When
  the token is obtained and the env var of the supplementary key is unset (or no such
  env var is configured), the result is the \<^verbatim>\<open>Authorization\<close> header alone.
\<close>

theorem C10_supplementary_key_optional:
  "authType auth = ''oauth2'' \<Longrightarrow>
   (fst (getAuthHeaders clk env post carrierCode auth ep st) = Inl e) =
     (fst (getOAuth2Token clk env post carrierCode auth st) = Inl e) \<and>
   (getOAuth2Token clk env post carrierCode auth st = (Inr tok, st') \<and>
    \<not> truthy (case supplementaryKeyEnvVar auth ep of None \<Rightarrow> None | Some n \<Rightarrow> env n) \<longrightarrow>
      getAuthHeaders clk env post carrierCode auth ep st =
        (Inr [(''Authorization'', tokenType tok @ '' '' @ token tok)], st'))"
proof -
  assume o: "authType auth = ''oauth2''"
  obtain r st1 where g: "getOAuth2Token clk env post carrierCode auth st = (r, st1)"
    by (cases "getOAuth2Token clk env post carrierCode auth st")
  show ?thesis
  proof (cases r)
    case (Inl err)
    with o g show ?thesis by (simp add: getAuthHeaders_def)
  next
    case (Inr t)
    with o g show ?thesis
      by (auto simp: getAuthHeaders_def getEnvVar_def Let_def split: option.splits)
  qed
qed

theorem C10_supplementary_key_optional_witness:
  "supplementaryKeyEnvVar maerskAuth (Some ''schedule'') = Some ''MAERSK_SCHEDULE_API_KEY'' \<and>
   maerskEnv ''MAERSK_SCHEDULE_API_KEY'' = None \<and>
   fst (getAuthHeaders (\<lambda>k. 1000) maerskEnv tokenEndpointOk ''MAERSK'' maerskAuth
          (Some ''schedule'') (Map.empty, 0)) =
     Inr [(''Authorization'', ''Bearer tok'')]"
proof -
  have o: "authType maerskAuth = ''oauth2''"
    by (simp add: maerskAuth_def)
  have s: "supplementaryKeyEnvVar maerskAuth (Some ''schedule'') = Some ''MAERSK_SCHEDULE_API_KEY''"
    by (simp add: supplementaryKeyEnvVar_def maerskAuth_def keyFor_def truthy_def)
  have u: "maerskEnv ''MAERSK_SCHEDULE_API_KEY'' = None"
    by (simp add: maerskEnv_def)
  have t: "getOAuth2Token (\<lambda>k. 1000) maerskEnv tokenEndpointOk ''MAERSK'' maerskAuth (Map.empty, 0) =
      (Inr \<lparr> token = ''tok'', expiresAt = 7201000, tokenType = ''Bearer'' \<rparr>,
       ([''MAERSK_oauth2'' \<mapsto> \<lparr> token = ''tok'', expiresAt = 7201000, tokenType = ''Bearer'' \<rparr>], 1))"
    by (simp add: getOAuth2Token_def maerskEnv_def maerskAuth_def tokenEndpointOk_def
        getEnvVar_def orElse_def truthy_def orDefault_def Let_def)
  have "getAuthHeaders (\<lambda>k. 1000) maerskEnv tokenEndpointOk ''MAERSK'' maerskAuth
          (Some ''schedule'') (Map.empty, 0) =
      (Inr [(''Authorization'', ''Bearer tok'')],
       ([''MAERSK_oauth2'' \<mapsto> \<lparr> token = ''tok'', expiresAt = 7201000, tokenType = ''Bearer'' \<rparr>], 1))"
    using C10_supplementary_key_optional[OF o, where clk = "\<lambda>k. 1000" and env = maerskEnv
        and post = tokenEndpointOk and carrierCode = "''MAERSK''" and ep = "Some ''schedule''"
        and st = "(Map.empty, 0)"
        and tok = "\<lparr> token = ''tok'', expiresAt = 7201000, tokenType = ''Bearer'' \<rparr>"
        and st' = "([''MAERSK_oauth2'' \<mapsto> \<lparr> token = ''tok'', expiresAt = 7201000, tokenType = ''Bearer'' \<rparr>], 1)"]
      t s u
    by (simp add: truthy_def)
  with s u show ?thesis by simp
qed

end
